theory Spec2Isabelle
  imports Main
begin

section \<open>Python values, exceptions and effects\<close>

text \<open>
  Both source files are sequences of library and operating-system calls.  The calls
  themselves are not part of the repository, so they are parameters of the model (the
  records \<open>lib\<close> and \<open>os\<close> below); what the repository's code does with them is
  translated line by line.  A program is a function from a state to a result and a new
  state.  The state is the outside world (files, network; of an arbitrary type \<open>'w\<close>)
  and the trace of the calls and log records made so far.  The result is the returned
  value or the exception that left the code.
\<close>

datatype pyval = PyNone | PyStr string | PyInt int | PyTuple "string list"

datatype pyexn =
    URLError string
  | KeyError string
  | FileNotFoundError string
  | AssertionError string "pyval list"
  | OtherException string

datatype level = DEBUG | INFO | ERROR

text \<open>
  A log record keeps the text of the f-string and the values interpolated into it.
  \<open>SubprocessRun\<close> keeps what \<open>subprocess.run\<close> gave back: the exit code, or the
  exception it raised.
\<close>

datatype event =
    Logged level string "pyval list"
  | QImageNew "string option"
  | PiexifLoad "string option"
  | UrlopenRead string
  | TmpdirCreate
  | TmpdirCleanup string
  | OpenWrite string string
  | OpenRead string
  | PathExists string bool
  | Walk string
  | Urlretrieve string string
  | Chmod string nat
  | Rmtree string
  | SubprocessRun "string list" bool "pyexn + int"
  | Makedirs string
  | Copyfile string string
  | Remove string

type_synonym ('w, 'a) prog = "'w \<times> event list \<Rightarrow> (pyexn + 'a) \<times> 'w \<times> event list"

definition ret :: "'a \<Rightarrow> ('w, 'a) prog" where
  "ret x s = (Inr x, s)"

definition raise_exn :: "pyexn \<Rightarrow> ('w, 'a) prog" where
  "raise_exn e s = (Inl e, s)"

text \<open>Sequencing: an exception of the first part skips the rest.\<close>

definition and_then :: "('w, 'a) prog \<Rightarrow> ('a \<Rightarrow> ('w, 'b) prog) \<Rightarrow> ('w, 'b) prog" where
  "and_then m k s = (case m s of (Inl e, s') \<Rightarrow> (Inl e, s') | (Inr x, s') \<Rightarrow> k x s')"

text \<open>The protected part of a \<open>try\<close>: its outcome becomes a value the handlers inspect.\<close>

definition attempt :: "('w, 'a) prog \<Rightarrow> ('w, pyexn + 'a) prog" where
  "attempt m s = (case m s of (r, s') \<Rightarrow> (Inr r, s'))"

text \<open>A call that only reads the world, and a call that may change it.\<close>

definition query :: "event \<Rightarrow> ('w \<Rightarrow> 'a) \<Rightarrow> ('w, 'a) prog" where
  "query ev f s = (case s of (w, tr) \<Rightarrow> (Inr (f w), (w, tr @ [ev])))"

definition call :: "event \<Rightarrow> ('w \<Rightarrow> (pyexn + 'a) \<times> 'w) \<Rightarrow> ('w, 'a) prog" where
  "call ev f s = (case s of (w, tr) \<Rightarrow> (case f w of (r, w') \<Rightarrow> (r, (w', tr @ [ev]))))"

definition logger :: "level \<Rightarrow> string \<Rightarrow> pyval list \<Rightarrow> ('w, unit) prog" where
  "logger lvl msg vals s = (case s of (w, tr) \<Rightarrow> (Inr (), (w, tr @ [Logged lvl msg vals])))"

section \<open>beeref/fileio/image.py\<close>

subsection \<open>The libraries the loader calls\<close>

text \<open>
  \<open>QTransform()\<close> is the identity transform and \<open>rotate\<close> turns it by an angle in
  degrees; the model keeps the calls made on the object.
\<close>

datatype qtransform = QTransform | Rotate qtransform int

text \<open>
  What \<open>piexif.load\<close> returns: a dictionary from IFD names to dictionaries from tag
  numbers to values.  \<open>piexif.ImageIFD.Orientation\<close> is tag 274.
\<close>

datatype exif_value = ExifInt int | ExifBytes string | ExifTuple "int list"

type_synonym ifd = "int \<rightharpoonup> exif_value"
type_synonym exif_dict = "string \<rightharpoonup> ifd"

definition ImageIFD_Orientation :: int where
  "ImageIFD_Orientation = 274"

text \<open>Python's \<open>orientation == n\<close> for an integer literal \<open>n\<close>.\<close>

fun py_eq_int :: "exif_value \<Rightarrow> int \<Rightarrow> bool" where
  "py_eq_int (ExifInt i) n = (i = n)"
| "py_eq_int (ExifBytes b) n = False"
| "py_eq_int (ExifTuple t) n = False"

text \<open>
  A \<open>QUrl\<close>, as far as \<open>load_image\<close> looks at it, and the two kinds of argument
  \<open>load_image\<close> tells apart with \<open>isinstance(path, str)\<close>.
\<close>

record qurl =
  isLocalFile :: bool
  toLocalFile :: string
  url :: string

datatype path_arg = StrPath string | UrlPath qurl

record ('w, 'img) lib =
  QImage :: "'w \<Rightarrow> string option \<Rightarrow> 'img"
  isNull :: "'img \<Rightarrow> bool"
  mirrored :: "'img \<Rightarrow> bool \<Rightarrow> bool \<Rightarrow> 'img"
  transformed :: "'img \<Rightarrow> qtransform \<Rightarrow> 'img"
  piexif_load :: "'w \<Rightarrow> string option \<Rightarrow> pyexn + exif_dict"
  normpath :: "string \<Rightarrow> string"
  urlopen_read :: "string \<Rightarrow> 'w \<Rightarrow> (pyexn + string) \<times> 'w"
  tmpdir_create :: "'w \<Rightarrow> (pyexn + string) \<times> 'w"
  tmpdir_cleanup :: "string \<Rightarrow> 'w \<Rightarrow> (pyexn + unit) \<times> 'w"
  path_join :: "string \<Rightarrow> string \<Rightarrow> string"
  write_bytes :: "string \<Rightarrow> string \<Rightarrow> 'w \<Rightarrow> (pyexn + unit) \<times> 'w"

definition str_of_path :: "string option \<Rightarrow> pyval" where
  "str_of_path path = (case path of None \<Rightarrow> PyNone | Some p \<Rightarrow> PyStr p)"

subsection \<open>exif_rotated_image\<close>

definition apply_orientation :: "('w, 'img) lib \<Rightarrow> 'img \<Rightarrow> exif_value \<Rightarrow> 'img" where
  "apply_orientation l img orientation =
    (if py_eq_int orientation 2 then mirrored l img True False
     else if py_eq_int orientation 3 then transformed l img (Rotate QTransform 180)
     else if py_eq_int orientation 4 then mirrored l img False True
     else if py_eq_int orientation 5 then
       mirrored l (transformed l img (Rotate QTransform 90)) True False
     else if py_eq_int orientation 6 then transformed l img (Rotate QTransform 90)
     else if py_eq_int orientation 7 then
       mirrored l (transformed l img (Rotate QTransform 270)) True False
     else if py_eq_int orientation 8 then transformed l img (Rotate QTransform 270)
     else img)"

definition exif_rotated_image :: "('w, 'img) lib \<Rightarrow> string option \<Rightarrow> ('w, 'img) prog" where
  "exif_rotated_image l path =
    and_then (query (QImageNew path) (\<lambda>w. QImage l w path)) (\<lambda>img.
    if isNull l img then ret img
    else
      and_then (query (PiexifLoad path) (\<lambda>w. piexif_load l w path)) (\<lambda>loaded.
      case loaded of
        Inl e \<Rightarrow>
          and_then (logger ERROR ''Exif parser failed on image: {path}'' [str_of_path path])
            (\<lambda>_. ret img)
      | Inr exif_dict \<Rightarrow>
          (case exif_dict ''0th'' of
            None \<Rightarrow> raise_exn (KeyError ''0th'')
          | Some zeroth \<Rightarrow>
              (case zeroth ImageIFD_Orientation of
                None \<Rightarrow> ret img
              | Some orientation \<Rightarrow> ret (apply_orientation l img orientation)))))"

subsection \<open>load_image\<close>

text \<open>
  The \<open>with tempfile.TemporaryDirectory()\<close> block: the directory is removed when the
  block is left, also by an exception.
\<close>

definition with_tmpdir :: "('w, 'img) lib \<Rightarrow> (string \<Rightarrow> ('w, 'a) prog) \<Rightarrow> ('w, 'a) prog" where
  "with_tmpdir l body =
    and_then (call TmpdirCreate (tmpdir_create l)) (\<lambda>tmp.
    and_then (attempt (body tmp)) (\<lambda>r.
    and_then (call (TmpdirCleanup tmp) (tmpdir_cleanup l tmp)) (\<lambda>_.
    case r of Inl e \<Rightarrow> raise_exn e | Inr x \<Rightarrow> ret x)))"

definition load_image :: "('w, 'img) lib \<Rightarrow> path_arg \<Rightarrow> ('w, 'img \<times> string) prog" where
  "load_image l path =
    (case path of
      StrPath s \<Rightarrow>
        and_then (exif_rotated_image l (Some (normpath l s))) (\<lambda>img.
        ret (img, normpath l s))
    | UrlPath u \<Rightarrow>
        if isLocalFile u then
          and_then (exif_rotated_image l (Some (normpath l (toLocalFile u)))) (\<lambda>img.
          ret (img, normpath l (toLocalFile u)))
        else
          and_then (exif_rotated_image l None) (\<lambda>img.
          and_then (attempt (call (UrlopenRead (url u)) (urlopen_read l (url u)))) (\<lambda>r.
          case r of
            Inl (URLError reason) \<Rightarrow>
              and_then (logger DEBUG ''Downloading image failed: {e.reason}'' [PyStr reason])
                (\<lambda>_. ret (img, url u))
          | Inl e \<Rightarrow> raise_exn e
          | Inr imgdata \<Rightarrow>
              and_then
                (with_tmpdir l (\<lambda>tmp.
                  and_then (call (OpenWrite (path_join l tmp ''img'') imgdata)
                              (write_bytes l (path_join l tmp ''img'') imgdata)) (\<lambda>_.
                  and_then (logger DEBUG ''Temporarily saved in: {fname}''
                              [PyStr (path_join l tmp ''img'')]) (\<lambda>_.
                  exif_rotated_image l (Some (path_join l tmp ''img''))))))
                (\<lambda>img'. ret (img', url u)))))"

section \<open>tools/build_appimage.py\<close>

subsection \<open>Command line, JSON document and operating system\<close>

text \<open>
  The parsed command line.  The JSON document is the one \<open>find_linux_libs\<close> writes:
  an object whose values are lists of strings.  The calls into \<open>os\<close>, \<open>shutil\<close>,
  \<open>subprocess\<close>, \<open>urllib\<close> and \<open>json\<close> are parameters; each one that touches the
  file system may raise.  \<open>os_walk_files\<close> is the concatenation of the \<open>files\<close>
  lists \<open>os.walk\<close> yields.  The order in which Python iterates over a set is not
  specified, so \<open>set_iteration\<close> stands for it.
\<close>

record args =
  version :: string
  jsonfile :: string
  redownload :: bool
  skip_apt :: bool
  loglevel :: string

type_synonym jsondoc = "string \<rightharpoonup> string list"

record 'w os =
  os_path_exists :: "'w \<Rightarrow> string \<Rightarrow> bool"
  os_path_basename :: "string \<Rightarrow> string"
  os_path_dirname :: "string \<Rightarrow> string"
  os_path_splitext :: "string \<Rightarrow> string \<times> string"
  urlretrieve :: "string \<Rightarrow> string \<Rightarrow> 'w \<Rightarrow> (pyexn + unit) \<times> 'w"
  os_chmod :: "string \<Rightarrow> nat \<Rightarrow> 'w \<Rightarrow> (pyexn + unit) \<times> 'w"
  shutil_rmtree :: "string \<Rightarrow> 'w \<Rightarrow> (pyexn + unit) \<times> 'w"
  subprocess_run :: "string list \<Rightarrow> bool \<Rightarrow> 'w \<Rightarrow> (pyexn + int) \<times> 'w"
  open_read :: "string \<Rightarrow> 'w \<Rightarrow> (pyexn + string) \<times> 'w"
  json_loads :: "string \<Rightarrow> pyexn + jsondoc"
  os_walk_files :: "'w \<Rightarrow> string \<Rightarrow> string list"
  os_makedirs :: "string \<Rightarrow> 'w \<Rightarrow> (pyexn + unit) \<times> 'w"
  shutil_copyfile :: "string \<Rightarrow> string \<Rightarrow> 'w \<Rightarrow> (pyexn + unit) \<times> 'w"
  os_remove :: "string \<Rightarrow> 'w \<Rightarrow> (pyexn + unit) \<times> 'w"
  open_write :: "string \<Rightarrow> string \<Rightarrow> 'w \<Rightarrow> (pyexn + unit) \<times> 'w"
  set_iteration :: "string list \<Rightarrow> string list"

definition removeprefix :: "string \<Rightarrow> string \<Rightarrow> string" where
  "removeprefix s pre = (if take (length pre) s = pre then drop (length pre) s else s)"

definition BEEVERSION :: "args \<Rightarrow> string" where
  "BEEVERSION a = removeprefix (version a) ''v''"

definition APPIMAGE :: string where
  "APPIMAGE = ''python3.11.8-cp311-cp311-manylinux_2_28_x86_64.AppImage''"

definition PYVER :: string where
  "PYVER = ''3.11''"

text \<open>A value that is an exception or a result, as a program.\<close>

definition of_result :: "pyexn + 'a \<Rightarrow> ('w, 'a) prog" where
  "of_result r s = (r, s)"

text \<open>\<open>data[key]\<close> on a dictionary.\<close>

definition getitem :: "jsondoc \<Rightarrow> string \<Rightarrow> ('w, string list) prog" where
  "getitem d k = (case d k of None \<Rightarrow> raise_exn (KeyError k) | Some v \<Rightarrow> ret v)"

definition path_exists :: "'w os \<Rightarrow> string \<Rightarrow> ('w, bool) prog" where
  "path_exists os p s =
    (case s of (w, tr) \<Rightarrow>
      (Inr (os_path_exists os w p), (w, tr @ [PathExists p (os_path_exists os w p)])))"

definition subprocess_run_call :: "'w os \<Rightarrow> string list \<Rightarrow> bool \<Rightarrow> ('w, int) prog" where
  "subprocess_run_call os cmd capture_output s =
    (case s of (w, tr) \<Rightarrow>
      (case subprocess_run os cmd capture_output w of
        (r, w') \<Rightarrow> (r, (w', tr @ [SubprocessRun cmd capture_output r]))))"

subsection \<open>run_command and download_file\<close>

text \<open>
  The script is run as its first line says, by \<open>python3\<close> without \<open>-O\<close>, so the
  \<open>assert\<close> of \<open>run_command\<close> is executed: a false condition raises
  \<open>AssertionError\<close>.  \<open>0o755\<close> is 493.
\<close>

definition run_command :: "'w os \<Rightarrow> string list \<Rightarrow> bool \<Rightarrow> ('w, unit) prog" where
  "run_command os cmd capture_output =
    and_then (logger INFO ''Running command: {args}'' [PyTuple cmd]) (\<lambda>_.
    and_then (subprocess_run_call os cmd capture_output) (\<lambda>returncode.
    if returncode = 0 then ret ()
    else raise_exn
      (AssertionError ''Failed with exit code {result.returncode}'' [PyInt returncode])))"

definition download_file :: "'w os \<Rightarrow> args \<Rightarrow> string \<Rightarrow> string \<Rightarrow> ('w, unit) prog" where
  "download_file os a u filename =
    and_then (if redownload a then ret False else path_exists os filename) (\<lambda>found.
    and_then
      (if found then logger INFO ''Found file: {filename}'' [PyStr filename]
       else
         and_then (logger INFO ''Downloading: {url}'' [PyStr u]) (\<lambda>_.
         and_then (logger INFO ''Saving as: {filename}'' [PyStr filename]) (\<lambda>_.
         call (Urlretrieve u filename) (urlretrieve os u filename)))) (\<lambda>_.
    call (Chmod filename 493) (os_chmod os filename 493)))"

subsection \<open>The library-copy loop\<close>

definition copy_lib ::
  "'w os \<Rightarrow> string list \<Rightarrow> string list \<Rightarrow> string \<Rightarrow> string list \<Rightarrow> ('w, string list) prog"
where
  "copy_lib os existing_files excludes lib paths =
    (if os_path_basename os lib \<in> set existing_files then
       and_then (logger DEBUG ''Skipping {lib} (already in appimage)'' [PyStr lib])
         (\<lambda>_. ret paths)
     else if os_path_basename os lib \<in> set excludes then
       and_then (logger DEBUG ''Skipping {lib} (excluded)'' [PyStr lib]) (\<lambda>_. ret paths)
     else
       and_then (ret (List.insert (os_path_dirname os lib) paths)) (\<lambda>paths.
       and_then (path_exists os lib) (\<lambda>ex.
       and_then (ret (if ex then lib else fst (os_path_splitext os lib))) (\<lambda>filename.
       and_then (call (Makedirs (os_path_dirname os (''squashfs-root'' @ filename)))
                   (os_makedirs os (os_path_dirname os (''squashfs-root'' @ filename)))) (\<lambda>_.
       and_then (logger DEBUG ''Copying {filename} to {dest}''
                   [PyStr filename, PyStr (''squashfs-root'' @ filename)]) (\<lambda>_.
       and_then (call (Copyfile filename (''squashfs-root'' @ filename))
                   (shutil_copyfile os filename (''squashfs-root'' @ filename))) (\<lambda>_.
       ret paths)))))))"

primrec copy_libs ::
  "'w os \<Rightarrow> string list \<Rightarrow> string list \<Rightarrow> string list \<Rightarrow> string list \<Rightarrow> ('w, string list) prog"
where
  "copy_libs os existing_files excludes [] = (\<lambda>paths. ret paths)"
| "copy_libs os existing_files excludes (lib # libs) = (\<lambda>paths.
     and_then (copy_lib os existing_files excludes lib paths)
       (copy_libs os existing_files excludes libs))"

text \<open>Lines 104 to 123: the files under \<open>squashfs-root\<close> are listed, then the loop runs.\<close>

definition copy_so_files ::
  "'w os \<Rightarrow> string list \<Rightarrow> string list \<Rightarrow> ('w, string list) prog"
where
  "copy_so_files os excludes libs =
    and_then (query (Walk ''squashfs-root'') (\<lambda>w. os_walk_files os w ''squashfs-root''))
      (\<lambda>existing_files.
    copy_libs os existing_files excludes libs [])"

subsection \<open>The launcher script\<close>

definition join_str :: "string \<Rightarrow> string list \<Rightarrow> string" where
  "join_str sep xs = (case xs of [] \<Rightarrow> [] | y # ys \<Rightarrow> y @ concat (map (\<lambda>z. sep @ z) ys))"

definition ld_paths :: "'w os \<Rightarrow> string list \<Rightarrow> string" where
  "ld_paths os paths =
    join_str '':''
      (map (\<lambda>p. ''${APPDIR}'' @ p) (''/usr/lib'' # set_iteration os paths)
       @ [''${LD_LIBRARY_PATH}''])"

definition content_head :: string where
  \<open>content_head = concat (map (\<lambda>line. line @ [CHR 0x0A])
    [''#! /bin/bash'',
     [],
     ''# If running from an extracted image, then export ARGV0 and APPDIR'',
     ''if [ -z "${APPIMAGE}" ]; then'',
     ''    export ARGV0="$0"'',
     [],
     ''    self=$(readlink -f -- "$0") # Protect spaces (issue 55)'',
     ''    here="${self%/*}"'',
     ''    tmp="${here%/*}"'',
     ''    export APPDIR="${tmp%/*}"'',
     ''fi'',
     [],
     ''# Resolve the calling command (preserving symbolic links).'',
     ''export APPIMAGE_COMMAND=$(command -v -- "$ARGV0")'',
     [],
     ''# Export SSL certificate'',
     ''export SSL_CERT_FILE="${APPDIR}/opt/_internal/certs.pem"''])\<close>

definition content :: "'w os \<Rightarrow> string list \<Rightarrow> string" where
  \<open>content os paths =
    content_head
    @ ''export LD_LIBRARY_PATH="'' @ ld_paths os paths @ ''"'' @ [CHR 0x0A]
    @ ''"$APPDIR/opt/python'' @ PYVER @ ''/bin/python'' @ PYVER @ ''" -I -m beeref "$@"''
    @ [CHR 0x0A]\<close>

subsection \<open>The script\<close>

definition python_url :: string where
  "python_url = ''https://github.com/niess/python-appimage/releases/download/''
     @ ''python'' @ PYVER @ ''/'' @ APPIMAGE"

definition appimagetool_url :: string where
  "appimagetool_url = ''https://github.com/AppImage/AppImageKit/releases/download/''
     @ ''continuous/appimagetool-x86_64.AppImage''"

definition extract_cmd :: "string list" where
  "extract_cmd = [''./python.appimage'', ''--appimage-extract'']"

definition pip_cmd :: "string list" where
  "pip_cmd = [''squashfs-root/usr/bin/pip'', ''install'', ''.'',
     ''--target=squashfs-root/opt/python'' @ PYVER @ ''/lib/python'' @ PYVER @ ''/'']"

definition apt_cmd :: "string list \<Rightarrow> string list" where
  "apt_cmd packages = [''sudo'', ''apt'', ''install''] @ packages"

definition appimagetool_cmd :: "args \<Rightarrow> string list" where
  "appimagetool_cmd a = [''./appimagetool.appimage'', ''squashfs-root'',
     ''BeeRef-'' @ BEEVERSION a @ ''.appimage'', ''--no-appstream'']"

text \<open>Lines 91 to 96: the document is read and its three keys are looked up.\<close>

definition read_data ::
  "'w os \<Rightarrow> args \<Rightarrow> ('w, string list \<times> string list \<times> string list) prog"
where
  "read_data os a =
    and_then (logger INFO ''Reading from: {args.jsonfile}'' [PyStr (jsonfile a)]) (\<lambda>_.
    and_then (call (OpenRead (jsonfile a)) (open_read os (jsonfile a))) (\<lambda>text.
    and_then (of_result (json_loads os text)) (\<lambda>data.
    and_then (getitem data ''libs'') (\<lambda>libs.
    and_then (getitem data ''packages'') (\<lambda>packages.
    and_then (getitem data ''excludes'') (\<lambda>excludes.
    ret (libs, packages, excludes)))))))"

text \<open>Lines 126 to 161: the launcher script replaces the symlink \<open>AppRun\<close>.\<close>

definition write_run_script :: "'w os \<Rightarrow> string list \<Rightarrow> ('w, unit) prog" where
  "write_run_script os paths =
    and_then (logger INFO ''Writing run script...'' []) (\<lambda>_.
    and_then (call (Remove ''squashfs-root/AppRun'') (os_remove os ''squashfs-root/AppRun''))
      (\<lambda>_.
    and_then (logger DEBUG ''LD_LIBRARY_PATH: {ld_paths}'' [PyStr (ld_paths os paths)]) (\<lambda>_.
    and_then (call (OpenWrite ''squashfs-root/AppRun'' (content os paths))
                (open_write os ''squashfs-root/AppRun'' (content os paths))) (\<lambda>_.
    call (Chmod ''squashfs-root/AppRun'' 493) (os_chmod os ''squashfs-root/AppRun'' 493)))))"

definition build :: "'w os \<Rightarrow> args \<Rightarrow> ('w, unit) prog" where
  "build os a =
    and_then (download_file os a python_url ''python.appimage'') (\<lambda>_.
    and_then (attempt (call (Rmtree ''squashfs-root'') (shutil_rmtree os ''squashfs-root'')))
      (\<lambda>r.
    and_then (case r of
                Inl (FileNotFoundError _) \<Rightarrow> ret ()
              | Inl e \<Rightarrow> raise_exn e
              | Inr _ \<Rightarrow> ret ()) (\<lambda>_.
    and_then (run_command os extract_cmd True) (\<lambda>_.
    and_then (run_command os pip_cmd False) (\<lambda>_.
    and_then (read_data os a) (\<lambda>(libs, packages, excludes).
    and_then (if skip_apt a then ret () else run_command os (apt_cmd packages) False) (\<lambda>_.
    and_then (logger INFO ''Copying .so files to appimage...'' []) (\<lambda>_.
    and_then (copy_so_files os excludes libs) (\<lambda>paths.
    and_then (write_run_script os paths) (\<lambda>_.
    and_then (download_file os a appimagetool_url ''appimagetool.appimage'') (\<lambda>_.
    run_command os (appimagetool_cmd a) False)))))))))))"

section \<open>A concrete world for the examples\<close>

subsection \<open>Images, files and the web\<close>

text \<open>
  The theorems below hold for every library.  Their examples run on this one: a file
  system is a list of paths with their contents, an image is the bytes it was decoded
  from together with the transformations applied to it, and \<open>os.path\<close> is the POSIX
  one.
\<close>

datatype demo_img =
    NullImg
  | Decoded string
  | Mirrored demo_img bool bool
  | Transformed demo_img qtransform

type_synonym demo_files = "(string \<times> string) list"

fun split_slash :: "string \<Rightarrow> string list" where
  "split_slash [] = [[]]"
| "split_slash (c # cs) =
    (if c = CHR ''/'' then [] # split_slash cs
     else (case split_slash cs of [] \<Rightarrow> [[c]] | x # xs \<Rightarrow> (c # x) # xs))"

text \<open>\<open>posixpath.normpath\<close>; the components kept so far are held in reverse.\<close>

fun norm_comps :: "bool \<Rightarrow> string list \<Rightarrow> string list \<Rightarrow> string list" where
  "norm_comps initial_slashes [] new_comps = rev new_comps"
| "norm_comps initial_slashes (part # parts) new_comps =
    (if part = [] \<or> part = ''.'' then norm_comps initial_slashes parts new_comps
     else if part \<noteq> ''..'' \<or> (\<not> initial_slashes \<and> new_comps = [])
             \<or> (new_comps \<noteq> [] \<and> hd new_comps = ''..'')
       then norm_comps initial_slashes parts (part # new_comps)
     else norm_comps initial_slashes parts (tl new_comps))"

definition posix_normpath :: "string \<Rightarrow> string" where
  "posix_normpath p =
    (if p = [] then ''.''
     else
       (let slashes =
              (if take 1 p \<noteq> ''/'' then []
               else if take 2 p = ''//'' \<and> take 3 p \<noteq> ''///'' then ''//'' else ''/'');
            joined =
              (case norm_comps (slashes \<noteq> []) (split_slash p) [] of
                 [] \<Rightarrow> []
               | y # ys \<Rightarrow> y @ concat (map (\<lambda>z. ''/'' @ z) ys));
            res = slashes @ joined
        in if res = [] then ''.'' else res))"

definition demo_exif :: "string \<Rightarrow> pyexn + exif_dict" where
  "demo_exif b =
    (if b = ''JPEG:6'' then Inr [''0th'' \<mapsto> [ImageIFD_Orientation \<mapsto> ExifInt 6]]
     else if b = ''JPEG'' then Inr [''0th'' \<mapsto> Map.empty]
     else Inl (OtherException ''InvalidImageDataError''))"

definition demo_web :: "string \<Rightarrow> pyexn + string" where
  "demo_web u =
    (if u = ''https://example.com/photo.jpg'' then Inr ''JPEG:6''
     else if u = ''https://example.com/gone.jpg'' then Inl (URLError ''Not Found'')
     else if u = ''https://example.com/truncated.jpg''
       then Inl (OtherException ''http.client.IncompleteRead'')
     else Inl (OtherException ''ValueError''))"

definition demo_lib :: "(demo_files, demo_img) lib" where
  "demo_lib =
    \<lparr> QImage = (\<lambda>w p. case p of
          None \<Rightarrow> NullImg
        | Some q \<Rightarrow> (case map_of w q of
            None \<Rightarrow> NullImg
          | Some b \<Rightarrow> if take 4 b = ''JPEG'' then Decoded b else NullImg)),
      isNull = (\<lambda>i. i = NullImg),
      mirrored = Mirrored,
      transformed = Transformed,
      piexif_load = (\<lambda>w p. case p of
          None \<Rightarrow> Inl (OtherException ''TypeError'')
        | Some q \<Rightarrow> (case map_of w q of
            None \<Rightarrow> Inl (FileNotFoundError q)
          | Some b \<Rightarrow> demo_exif b)),
      normpath = posix_normpath,
      urlopen_read = (\<lambda>u w. (demo_web u, w)),
      tmpdir_create = (\<lambda>w. (Inr ''/tmp/tmpdemo'', w)),
      tmpdir_cleanup = (\<lambda>d w. (Inr (), filter (\<lambda>pb. take (length d) (fst pb) \<noteq> d) w)),
      path_join = (\<lambda>a b. a @ ''/'' @ b),
      write_bytes = (\<lambda>p b w. (Inr (), (p, b) # w)) \<rparr>"

definition demo_files :: demo_files where
  "demo_files =
    [(''/home/bee/photo.jpg'', ''JPEG:6''),
     (''/home/bee/plain.jpg'', ''JPEG''),
     (''/home/bee/broken.jpg'', ''JPEG with bad exif''),
     (''/home/bee/notes.txt'', ''hello'')]"

subsection \<open>A build machine\<close>

text \<open>
  \<open>os.path\<close> of POSIX (\<open>posixpath.basename\<close>, \<open>dirname\<close> and \<open>splitext\<close>), and a
  file system that is the list of the files it holds.  The machine is given the JSON
  document the file holds and the exit code of every command.  Extracting the Python
  AppImage puts \<open>demo_extracted\<close> on the disk.
\<close>

definition posix_basename :: "string \<Rightarrow> string" where
  "posix_basename p = rev (takeWhile (\<lambda>c. c \<noteq> CHR ''/'') (rev p))"

definition posix_dirname :: "string \<Rightarrow> string" where
  "posix_dirname p =
    (let head = rev (dropWhile (\<lambda>c. c \<noteq> CHR ''/'') (rev p))
     in if head \<noteq> [] \<and> \<not> list_all (\<lambda>c. c = CHR ''/'') head
        then rev (dropWhile (\<lambda>c. c = CHR ''/'') (rev head))
        else head)"

definition posix_splitext :: "string \<Rightarrow> string \<times> string" where
  "posix_splitext p =
    (let b = posix_basename p;
         d = take (length p - length b) p;
         ext = rev (takeWhile (\<lambda>c. c \<noteq> CHR ''.'') (rev b))
     in if length ext = length b then (p, [])
        else
          (let stem = take (length b - length ext - 1) b
           in if list_ex (\<lambda>c. c \<noteq> CHR ''.'') stem then (d @ stem, CHR ''.'' # ext)
              else (p, [])))"

definition under :: "string \<Rightarrow> string \<Rightarrow> bool" where
  "under d p = (take (length d + 1) p = d @ ''/'')"

definition demo_extracted :: "string list" where
  "demo_extracted = [''squashfs-root/AppRun'', ''squashfs-root/usr/lib/libz.so.1'']"

definition demo_os :: "jsondoc \<Rightarrow> (string list \<Rightarrow> int) \<Rightarrow> (string list) os" where
  "demo_os doc exit_code =
    \<lparr> os_path_exists = (\<lambda>w p. p \<in> set w \<or> list_ex (under p) w),
      os_path_basename = posix_basename,
      os_path_dirname = posix_dirname,
      os_path_splitext = posix_splitext,
      urlretrieve = (\<lambda>u f w. (Inr (), f # w)),
      os_chmod = (\<lambda>f m w. (if f \<in> set w then Inr () else Inl (FileNotFoundError f), w)),
      shutil_rmtree = (\<lambda>d w.
        if list_ex (under d) w then (Inr (), filter (\<lambda>p. \<not> under d p) w)
        else (Inl (FileNotFoundError d), w)),
      subprocess_run = (\<lambda>cmd capture_output w.
        (Inr (exit_code cmd),
         if exit_code cmd = 0 \<and> cmd = extract_cmd then demo_extracted @ w else w)),
      open_read = (\<lambda>p w.
        (if p \<in> set w then Inr ''(the text of the file)'' else Inl (FileNotFoundError p), w)),
      json_loads = (\<lambda>t.
        if t = ''(the text of the file)'' then Inr doc
        else Inl (OtherException ''json.JSONDecodeError'')),
      os_walk_files = (\<lambda>w d. map posix_basename (filter (under d) w)),
      os_makedirs = (\<lambda>d w. (Inr (), w)),
      shutil_copyfile = (\<lambda>src dst w.
        if src \<in> set w then (Inr (), dst # w) else (Inl (FileNotFoundError src), w)),
      os_remove = (\<lambda>p w.
        if p \<in> set w then (Inr (), removeAll p w) else (Inl (FileNotFoundError p), w)),
      open_write = (\<lambda>p t w. (Inr (), p # w)),
      set_iteration = (\<lambda>xs. xs) \<rparr>"

definition demo_args :: args where
  "demo_args =
    \<lparr> version = ''v0.3.3'', jsonfile = ''tools/linux_libs.json'', redownload = False,
      skip_apt = False, loglevel = ''INFO'' \<rparr>"

definition demo_libs :: "string list" where
  "demo_libs =
    [''/usr/lib/libz.so.1'', ''/usr/lib/libc.so.6'', ''/usr/lib/libxcb.so.1'',
     ''/usr/lib/libfoo.so.2'']"

definition demo_doc :: jsondoc where
  "demo_doc =
    [''libs'' \<mapsto> demo_libs, ''packages'' \<mapsto> [''libxcb1''], ''excludes'' \<mapsto> [''libc.so.6'']]"


text \<open>A document all of whose libraries are in the AppImage already or excluded.\<close>

definition demo_doc_all_skipped :: jsondoc where
  "demo_doc_all_skipped =
    [''libs'' \<mapsto> [''/usr/lib/libz.so.1'', ''/usr/lib/libc.so.6''],
     ''packages'' \<mapsto> [''libxcb1''], ''excludes'' \<mapsto> [''libc.so.6'']]"

definition demo_disk :: "string list" where
  "demo_disk =
    [''tools/linux_libs.json'', ''/usr/lib/libz.so.1'', ''/usr/lib/libc.so.6'',
     ''/usr/lib/libxcb.so.1'', ''/usr/lib/libfoo.so'']"

text \<open>The same disk after an earlier run: both downloads are already there.\<close>

definition demo_disk_cached :: "string list" where
  "demo_disk_cached = [''python.appimage'', ''appimagetool.appimage''] @ demo_disk"

definition all_succeed :: "string list \<Rightarrow> int" where
  "all_succeed cmd = 0"

definition pip_fails :: "string list \<Rightarrow> int" where
  "pip_fails cmd = (if cmd = pip_cmd then 1 else 0)"

section \<open>Notions the properties are stated with\<close>

text \<open>A command that ran and gave a non-zero exit code.\<close>

fun failed_run :: "event \<Rightarrow> bool" where
  "failed_run (SubprocessRun cmd capture_output (Inr rc)) = (rc \<noteq> 0)"
| "failed_run _ = False"

text \<open>
  The events that act on the machine, as opposed to log records and to the two calls
  that only look at the disk.
\<close>

fun is_action :: "event \<Rightarrow> bool" where
  "is_action (Logged lvl msg vals) = False"
| "is_action (PathExists p b) = False"
| "is_action (Walk d) = False"
| "is_action _ = True"

fun is_copy_action :: "event \<Rightarrow> bool" where
  "is_copy_action (Makedirs d) = True"
| "is_copy_action (Copyfile src dst) = True"
| "is_copy_action _ = False"

fun is_download :: "event \<Rightarrow> bool" where
  "is_download (Urlretrieve u f) = True"
| "is_download _ = False"

text \<open>
  What the build script is described to do, in the words of its description and in
  terms of the calls of the machine alone.

  \<open>download_file\<close> downloads unless \<open>--redownload\<close> is not given and the file is there
  already; in both cases it makes the file executable.  \<open>fetched\<close> says that these
  calls returned without an exception and took the machine from \<open>w\<close> to \<open>w'\<close>.
\<close>

definition fetch_actions :: "'w os \<Rightarrow> args \<Rightarrow> string \<Rightarrow> string \<Rightarrow> 'w \<Rightarrow> event list" where
  "fetch_actions os a u f w =
    (if \<not> redownload a \<and> os_path_exists os w f then [Chmod f 493]
     else [Urlretrieve u f, Chmod f 493])"

definition fetched :: "'w os \<Rightarrow> args \<Rightarrow> string \<Rightarrow> string \<Rightarrow> 'w \<Rightarrow> 'w \<Rightarrow> bool" where
  "fetched os a u f w w' =
    (if \<not> redownload a \<and> os_path_exists os w f then os_chmod os f 493 w = (Inr (), w')
     else (case urlretrieve os u f w of
             (Inl e, wm) \<Rightarrow> False
           | (Inr x, wm) \<Rightarrow> os_chmod os f 493 wm = (Inr (), w')))"

text \<open>
  The library-copy loop.  An entry of \<open>libs\<close> is skipped when its basename is among
  the files found under \<open>squashfs-root\<close> or among \<open>excludes\<close>.  For any other entry
  the source is the entry itself if it is on the disk, and else the entry without its
  extension; the directory of the destination (the source's path under
  \<open>squashfs-root\<close>) is made and the source is copied there.  The first exception of
  \<open>makedirs\<close> or \<open>copyfile\<close> ends the loop.  \<open>described_copy\<close> and
  \<open>described_loop\<close> give the exception (if any), the machine afterwards and the
  calls made; \<open>described_paths\<close> are the directories of the entries that were not
  skipped, as the loop collects them for the launcher script.
\<close>

definition entry_skipped :: "'w os \<Rightarrow> string list \<Rightarrow> string list \<Rightarrow> string \<Rightarrow> bool" where
  "entry_skipped os tree_files excludes lib =
    (os_path_basename os lib \<in> set tree_files \<or> os_path_basename os lib \<in> set excludes)"

definition entry_source :: "'w os \<Rightarrow> 'w \<Rightarrow> string \<Rightarrow> string" where
  "entry_source os w lib =
    (if os_path_exists os w lib then lib else fst (os_path_splitext os lib))"

definition described_copy :: "'w os \<Rightarrow> string \<Rightarrow> 'w \<Rightarrow> pyexn option \<times> 'w \<times> event list" where
  "described_copy os lib w =
    (let src = entry_source os w lib;
         dest = ''squashfs-root'' @ src
     in case os_makedirs os (os_path_dirname os dest) w of
          (Inl e, w1) \<Rightarrow> (Some e, w1, [Makedirs (os_path_dirname os dest)])
        | (Inr x, w1) \<Rightarrow>
            (case shutil_copyfile os src dest w1 of
               (Inl e, w2) \<Rightarrow>
                 (Some e, w2, [Makedirs (os_path_dirname os dest), Copyfile src dest])
             | (Inr y, w2) \<Rightarrow>
                 (None, w2, [Makedirs (os_path_dirname os dest), Copyfile src dest])))"

primrec described_loop ::
  "'w os \<Rightarrow> string list \<Rightarrow> string list \<Rightarrow> string list \<Rightarrow> 'w \<Rightarrow> pyexn option \<times> 'w \<times> event list"
where
  "described_loop os tree_files excludes [] = (\<lambda>w. (None, w, []))"
| "described_loop os tree_files excludes (lib # libs) = (\<lambda>w.
     if entry_skipped os tree_files excludes lib
     then described_loop os tree_files excludes libs w
     else
       (case described_copy os lib w of
          (Some e, w1, acts) \<Rightarrow> (Some e, w1, acts)
        | (None, w1, acts) \<Rightarrow>
            (case described_loop os tree_files excludes libs w1 of
               (r, w2, acts2) \<Rightarrow> (r, w2, acts @ acts2))))"

definition collect_path ::
  "'w os \<Rightarrow> string list \<Rightarrow> string list \<Rightarrow> string \<Rightarrow> string list \<Rightarrow> string list"
where
  "collect_path os tree_files excludes lib paths =
    (if entry_skipped os tree_files excludes lib then paths
     else List.insert (os_path_dirname os lib) paths)"

definition described_paths ::
  "'w os \<Rightarrow> string list \<Rightarrow> string list \<Rightarrow> string list \<Rightarrow> string list"
where
  "described_paths os tree_files excludes libs =
    fold (collect_path os tree_files excludes) libs []"

text \<open>
  A run stops at a failed command: if the events a program added hold a failed command,
  it is the last of them and the program raised the assertion error of \<open>run_command\<close>.
\<close>

definition stops_at_failed_run :: "(pyexn + 'a) \<Rightarrow> event list \<Rightarrow> bool" where
  "stops_at_failed_run r added =
    (list_ex failed_run added \<longrightarrow>
      (\<exists>pre cmd capture_output rc.
        added = pre @ [SubprocessRun cmd capture_output (Inr rc)]
        \<and> \<not> list_ex failed_run pre \<and> rc \<noteq> 0
        \<and> r = Inl (AssertionError ''Failed with exit code {result.returncode}'' [PyInt rc])))"

definition guarded :: "('w, 'a) prog \<Rightarrow> bool" where
  "guarded m =
    (\<forall>w tr. case m (w, tr) of
       (r, (w', tr')) \<Rightarrow> \<exists>added. tr' = tr @ added \<and> stops_at_failed_run r added)"

section \<open>Properties of the image loader\<close>

lemma and_then_Inr: "m s = (Inr x, s') \<Longrightarrow> and_then m k s = k x s'"
  by (simp add: and_then_def)

lemma and_then_Inl: "m s = (Inl e, s') \<Longrightarrow> and_then m k s = (Inl e, s')"
  by (simp add: and_then_def)

lemma query_eq: "query ev f (w, tr) = (Inr (f w), (w, tr @ [ev]))"
  by (simp add: query_def)

lemma logger_eq: "logger lvl msg vals (w, tr) = (Inr (), (w, tr @ [Logged lvl msg vals]))"
  by (simp add: logger_def)

lemma call_eq: "f w = (r, w') \<Longrightarrow> call ev f (w, tr) = (r, (w', tr @ [ev]))"
  by (simp add: call_def)

lemma exif_rotated_image_null:
  assumes "isNull l (QImage l w path)"
  shows "exif_rotated_image l path (w, tr) = (Inr (QImage l w path), (w, tr @ [QImageNew path]))"
  using assms by (simp add: exif_rotated_image_def and_then_def query_def ret_def)

lemma exif_rotated_image_world:
  assumes "exif_rotated_image l path (w, tr) = (r, (w', tr'))"
  shows "w' = w"
  using assms
  by (auto simp: exif_rotated_image_def and_then_def query_def ret_def logger_def raise_exn_def
      split: if_splits sum.splits option.splits)

text \<open>
  C1.  The image decodes, the EXIF data loads and its 0th IFD holds the Orientation tag
  with the integer \<open>v\<close>.  Then \<open>exif_rotated_image\<close> returns, without raising and
  without logging, the decoded image under the transform fixed for \<open>v\<close>: 1 the image as
  it is, 2 mirrored horizontally, 3 turned by 180 degrees, 4 mirrored vertically, 5 turned
  by 90 degrees and then mirrored horizontally, 6 turned by 90 degrees, 7 turned by 270
  degrees and then mirrored horizontally, 8 turned by 270 degrees.  Whatever \<open>v\<close> is, the
  result is one of these eight.
\<close>

theorem exif_rotated_image_orientation:
  assumes decoded: "\<not> isNull l (QImage l w path)"
    and loaded: "piexif_load l w path = Inr d"
    and zeroth: "d ''0th'' = Some ifd0"
    and tag: "ifd0 ImageIFD_Orientation = Some (ExifInt v)"
  shows "\<exists>r. exif_rotated_image l path (w, tr)
              = (Inr r, (w, tr @ [QImageNew path, PiexifLoad path]))
    \<and> (v = 1 \<longrightarrow> r = QImage l w path)
    \<and> (v = 2 \<longrightarrow> r = mirrored l (QImage l w path) True False)
    \<and> (v = 3 \<longrightarrow> r = transformed l (QImage l w path) (Rotate QTransform 180))
    \<and> (v = 4 \<longrightarrow> r = mirrored l (QImage l w path) False True)
    \<and> (v = 5 \<longrightarrow> r = mirrored l (transformed l (QImage l w path) (Rotate QTransform 90))
                        True False)
    \<and> (v = 6 \<longrightarrow> r = transformed l (QImage l w path) (Rotate QTransform 90))
    \<and> (v = 7 \<longrightarrow> r = mirrored l (transformed l (QImage l w path) (Rotate QTransform 270))
                        True False)
    \<and> (v = 8 \<longrightarrow> r = transformed l (QImage l w path) (Rotate QTransform 270))
    \<and> r \<in> {QImage l w path,
            mirrored l (QImage l w path) True False,
            transformed l (QImage l w path) (Rotate QTransform 180),
            mirrored l (QImage l w path) False True,
            mirrored l (transformed l (QImage l w path) (Rotate QTransform 90)) True False,
            transformed l (QImage l w path) (Rotate QTransform 90),
            mirrored l (transformed l (QImage l w path) (Rotate QTransform 270)) True False,
            transformed l (QImage l w path) (Rotate QTransform 270)}"
proof -
  have run: "exif_rotated_image l path (w, tr)
      = (Inr (apply_orientation l (QImage l w path) (ExifInt v)),
         (w, tr @ [QImageNew path, PiexifLoad path]))"
    using assms by (simp add: exif_rotated_image_def and_then_def query_def ret_def)
  show ?thesis
    unfolding run by (simp add: apply_orientation_def)
qed

theorem exif_rotated_image_orientation_witness:
  "exif_rotated_image demo_lib (Some ''/home/bee/photo.jpg'') (demo_files, [])
     = (Inr (Transformed (Decoded ''JPEG:6'') (Rotate QTransform 90)),
        (demo_files, [QImageNew (Some ''/home/bee/photo.jpg''),
                      PiexifLoad (Some ''/home/bee/photo.jpg'')]))"
proof -
  have decoded: "\<not> isNull demo_lib (QImage demo_lib demo_files (Some ''/home/bee/photo.jpg''))"
    by (simp add: demo_lib_def demo_files_def)
  have loaded: "piexif_load demo_lib demo_files (Some ''/home/bee/photo.jpg'')
      = Inr [''0th'' \<mapsto> [ImageIFD_Orientation \<mapsto> ExifInt 6]]"
    by (simp add: demo_lib_def demo_files_def demo_exif_def)
  have img: "QImage demo_lib demo_files (Some ''/home/bee/photo.jpg'') = Decoded ''JPEG:6''"
    by (simp add: demo_lib_def demo_files_def)
  have tf: "transformed demo_lib = Transformed"
    by (simp add: demo_lib_def)
  show ?thesis
    using exif_rotated_image_orientation
      [OF decoded loaded, of "[ImageIFD_Orientation \<mapsto> ExifInt 6]" 6 "[]"]
    by (simp add: img tf)
qed

text \<open>
  C2.  The image decodes and \<open>piexif.load\<close> raises, whatever the exception.  Then
  \<open>exif_rotated_image\<close> returns the decoded image as it is; the only thing it does
  besides is to log the failure.
\<close>

theorem exif_rotated_image_exif_failure:
  assumes decoded: "\<not> isNull l (QImage l w path)"
    and failed: "piexif_load l w path = Inl e"
  shows "exif_rotated_image l path (w, tr)
    = (Inr (QImage l w path),
       (w, tr @ [QImageNew path, PiexifLoad path,
                 Logged ERROR ''Exif parser failed on image: {path}'' [str_of_path path]]))"
  using assms
  by (simp add: exif_rotated_image_def and_then_def query_def ret_def logger_def)

theorem exif_rotated_image_exif_failure_witness:
  "exif_rotated_image demo_lib (Some ''/home/bee/broken.jpg'') (demo_files, [])
    = (Inr (Decoded ''JPEG with bad exif''),
       (demo_files, [QImageNew (Some ''/home/bee/broken.jpg''),
                     PiexifLoad (Some ''/home/bee/broken.jpg''),
                     Logged ERROR ''Exif parser failed on image: {path}''
                       [PyStr ''/home/bee/broken.jpg'']]))"
proof -
  have decoded: "\<not> isNull demo_lib (QImage demo_lib demo_files (Some ''/home/bee/broken.jpg''))"
    by (simp add: demo_lib_def demo_files_def)
  have failed: "piexif_load demo_lib demo_files (Some ''/home/bee/broken.jpg'')
      = Inl (OtherException ''InvalidImageDataError'')"
    by (simp add: demo_lib_def demo_files_def demo_exif_def)
  have img: "QImage demo_lib demo_files (Some ''/home/bee/broken.jpg'')
      = Decoded ''JPEG with bad exif''"
    by (simp add: demo_lib_def demo_files_def)
  show ?thesis
    using exif_rotated_image_exif_failure [OF decoded failed, of "[]"]
    by (simp add: img str_of_path_def)
qed

text \<open>
  C8.  When the constructed image is null, \<open>exif_rotated_image\<close> returns it at once:
  the trace holds the construction of the image and nothing else (no call of
  \<open>piexif.load\<close>, no log record), and the result is the same whatever \<open>piexif.load\<close>,
  \<open>mirrored\<close> and \<open>transformed\<close> would do.
\<close>

theorem exif_rotated_image_null_image:
  assumes "isNull l (QImage l w path)"
  shows "exif_rotated_image (l\<lparr>piexif_load := pl, mirrored := mi, transformed := tf\<rparr>) path
           (w, tr)
         = (Inr (QImage l w path), (w, tr @ [QImageNew path]))"
  using assms by (simp add: exif_rotated_image_def and_then_def query_def ret_def)

theorem exif_rotated_image_null_image_witness:
  "exif_rotated_image demo_lib (Some ''/home/bee/notes.txt'') (demo_files, [])
     = (Inr NullImg, (demo_files, [QImageNew (Some ''/home/bee/notes.txt'')]))"
proof -
  have null: "isNull demo_lib (QImage demo_lib demo_files (Some ''/home/bee/notes.txt''))"
    by (simp add: demo_lib_def demo_files_def)
  have img: "QImage demo_lib demo_files (Some ''/home/bee/notes.txt'') = NullImg"
    by (simp add: demo_lib_def demo_files_def)
  have same: "demo_lib\<lparr>piexif_load := piexif_load demo_lib, mirrored := mirrored demo_lib,
      transformed := transformed demo_lib\<rparr> = demo_lib"
    by simp
  show ?thesis
    using exif_rotated_image_null_image [OF null, where pl = "piexif_load demo_lib"
        and mi = "mirrored demo_lib" and tf = "transformed demo_lib" and tr = "[]"]
    by (simp only: same img append_Nil)
qed

text \<open>
  C9.  For a string, and for a URL that refers to a local file (then the string is what
  \<open>toLocalFile\<close> gives), \<open>load_image\<close> normalises the string with
  \<open>os.path.normpath\<close>, loads the image from the normalised path and returns it paired
  with the normalised path; an exception of the loading is passed on.
\<close>

theorem load_image_local_path:
  assumes "input = StrPath p \<or> input = UrlPath u \<and> isLocalFile u \<and> toLocalFile u = p"
    and "exif_rotated_image l (Some (normpath l p)) st = (r, st')"
  shows "load_image l input st = (map_sum id (\<lambda>img. (img, normpath l p)) r, st')"
  using assms
  by (cases r) (auto simp: load_image_def and_then_def ret_def)

theorem load_image_local_path_witness:
  "load_image demo_lib (StrPath ''/home/bee/../bee/./photo.jpg'') (demo_files, [])
    = (Inr (Transformed (Decoded ''JPEG:6'') (Rotate QTransform 90), ''/home/bee/photo.jpg''),
       (demo_files, [QImageNew (Some ''/home/bee/photo.jpg''),
                     PiexifLoad (Some ''/home/bee/photo.jpg'')]))"
proof -
  have np: "normpath demo_lib ''/home/bee/../bee/./photo.jpg'' = ''/home/bee/photo.jpg''"
    by (simp add: demo_lib_def posix_normpath_def)
  have run: "exif_rotated_image demo_lib (Some (normpath demo_lib ''/home/bee/../bee/./photo.jpg''))
        (demo_files, [])
      = (Inr (Transformed (Decoded ''JPEG:6'') (Rotate QTransform 90)),
         (demo_files, [QImageNew (Some ''/home/bee/photo.jpg''),
                       PiexifLoad (Some ''/home/bee/photo.jpg'')]))"
    unfolding np
    by (simp add: exif_rotated_image_def and_then_def query_def ret_def demo_lib_def
        demo_files_def demo_exif_def apply_orientation_def ImageIFD_Orientation_def)
  have input: "StrPath ''/home/bee/../bee/./photo.jpg'' = StrPath ''/home/bee/../bee/./photo.jpg''
      \<or> StrPath ''/home/bee/../bee/./photo.jpg'' = UrlPath undefined \<and> isLocalFile undefined
        \<and> toLocalFile undefined = ''/home/bee/../bee/./photo.jpg''"
    by simp
  show ?thesis
    using load_image_local_path [OF input run] by (simp add: np)
qed

text \<open>
  C3, as the code has it.  For a URL that is not a local file, when the download raises
  \<open>URLError\<close>, \<open>load_image\<close> returns the null image made by \<open>QImage\<close> without a
  path, paired with the URL string; the failure is logged at debug level and no exception
  leaves \<open>load_image\<close>.  When the download raises any other exception, nothing is
  logged and that exception leaves \<open>load_image\<close>.  (That \<open>QImage\<close> without a path is
  null is a fact of Qt, taken as a hypothesis.)
\<close>

theorem load_image_download_failed:
  assumes nonlocal: "\<not> isLocalFile u"
    and null: "isNull l (QImage l w None)"
    and failed: "urlopen_read l (url u) w = (Inl e, w')"
  shows "load_image l (UrlPath u) (w, tr)
    = (case e of
         URLError reason \<Rightarrow>
           (Inr (QImage l w None, url u),
            (w', tr @ [QImageNew None, UrlopenRead (url u),
                       Logged DEBUG ''Downloading image failed: {e.reason}'' [PyStr reason]]))
       | _ \<Rightarrow> (Inl e, (w', tr @ [QImageNew None, UrlopenRead (url u)])))"
  using nonlocal failed
  by (cases e)
    (simp_all add: load_image_def exif_rotated_image_null [OF null]
      and_then_def attempt_def call_def logger_def ret_def raise_exn_def)

theorem load_image_download_failed_witness:
  "load_image demo_lib
      (UrlPath \<lparr>isLocalFile = False, toLocalFile = [], url = ''https://example.com/gone.jpg''\<rparr>)
      (demo_files, [])
    = (Inr (NullImg, ''https://example.com/gone.jpg''),
       (demo_files, [QImageNew None, UrlopenRead ''https://example.com/gone.jpg'',
                     Logged DEBUG ''Downloading image failed: {e.reason}''
                       [PyStr ''Not Found'']]))"
proof -
  let ?u = "\<lparr>isLocalFile = False, toLocalFile = [], url = ''https://example.com/gone.jpg''\<rparr>"
  have nonlocal: "\<not> isLocalFile ?u"
    by simp
  have null: "isNull demo_lib (QImage demo_lib demo_files None)"
    by (simp add: demo_lib_def)
  have failed: "urlopen_read demo_lib (url ?u) demo_files = (Inl (URLError ''Not Found''), demo_files)"
    by (simp add: demo_lib_def demo_web_def)
  have img: "QImage demo_lib demo_files None = NullImg"
    by (simp add: demo_lib_def)
  show ?thesis
    using load_image_download_failed [OF nonlocal null failed, of "[]"] by (simp add: img)
qed

text \<open>
  C3 as stated fails: a download that fails with an exception other than \<open>URLError\<close>
  (here the connection is closed before the body is complete) is not caught, and the
  exception leaves \<open>load_image\<close>.
\<close>

theorem load_image_download_failure_counterexample:
  "\<not> isLocalFile
       \<lparr>isLocalFile = False, toLocalFile = [], url = ''https://example.com/truncated.jpg''\<rparr>
   \<and> urlopen_read demo_lib ''https://example.com/truncated.jpg'' demo_files
       = (Inl (OtherException ''http.client.IncompleteRead''), demo_files)
   \<and> load_image demo_lib
       (UrlPath \<lparr>isLocalFile = False, toLocalFile = [],
                 url = ''https://example.com/truncated.jpg''\<rparr>)
       (demo_files, [])
     = (Inl (OtherException ''http.client.IncompleteRead''),
        (demo_files, [QImageNew None, UrlopenRead ''https://example.com/truncated.jpg'']))"
  by (simp add: load_image_def exif_rotated_image_def and_then_def query_def ret_def
      attempt_def call_def raise_exn_def demo_lib_def demo_web_def)

text \<open>
  C5.  For a URL that is not a local file, when the download gives the bytes
  \<open>imgdata\<close> (and the temporary directory can be made, written to and removed),
  \<open>load_image\<close> writes the bytes to the file \<open>img\<close> of a temporary directory, calls
  \<open>exif_rotated_image\<close> on that file, removes the directory and returns what
  \<open>exif_rotated_image\<close> returned, paired with the URL string.
\<close>

theorem load_image_download:
  assumes nonlocal: "\<not> isLocalFile u"
    and null: "isNull l (QImage l w None)"
    and download: "urlopen_read l (url u) w = (Inr imgdata, w1)"
    and tmpdir: "tmpdir_create l w1 = (Inr tmp, w2)"
    and fname: "fname = path_join l tmp ''img''"
    and written: "write_bytes l fname imgdata w2 = (Inr (), w3)"
    and rotated: "exif_rotated_image l (Some fname)
        (w3, tr @ [QImageNew None, UrlopenRead (url u), TmpdirCreate, OpenWrite fname imgdata,
                   Logged DEBUG ''Temporarily saved in: {fname}'' [PyStr fname]])
      = (r, (w3', tr'))"
    and cleanup: "tmpdir_cleanup l tmp w3 = (Inr (), w4)"
  shows "load_image l (UrlPath u) (w, tr)
    = (map_sum id (\<lambda>img. (img, url u)) r, (w4, tr' @ [TmpdirCleanup tmp]))"
proof -
  have same: "w3' = w3"
    using exif_rotated_image_world [OF rotated] .
  show ?thesis
    using nonlocal download tmpdir written rotated cleanup
    unfolding same fname
    by (cases r)
      (simp_all add: load_image_def exif_rotated_image_null [OF null]
        with_tmpdir_def and_then_def attempt_def call_def logger_def ret_def raise_exn_def)
qed

theorem load_image_download_witness:
  "load_image demo_lib
      (UrlPath \<lparr>isLocalFile = False, toLocalFile = [], url = ''https://example.com/photo.jpg''\<rparr>)
      (demo_files, [])
    = (Inr (Transformed (Decoded ''JPEG:6'') (Rotate QTransform 90),
            ''https://example.com/photo.jpg''),
       (demo_files,
        [QImageNew None, UrlopenRead ''https://example.com/photo.jpg'', TmpdirCreate,
         OpenWrite ''/tmp/tmpdemo/img'' ''JPEG:6'',
         Logged DEBUG ''Temporarily saved in: {fname}'' [PyStr ''/tmp/tmpdemo/img''],
         QImageNew (Some ''/tmp/tmpdemo/img''), PiexifLoad (Some ''/tmp/tmpdemo/img''),
         TmpdirCleanup ''/tmp/tmpdemo'']))"
proof -
  let ?u = "\<lparr>isLocalFile = False, toLocalFile = [], url = ''https://example.com/photo.jpg''\<rparr>"
  let ?w3 = "(''/tmp/tmpdemo/img'', ''JPEG:6'') # demo_files"
  have nonlocal: "\<not> isLocalFile ?u"
    by simp
  have null: "isNull demo_lib (QImage demo_lib demo_files None)"
    by (simp add: demo_lib_def)
  have download: "urlopen_read demo_lib (url ?u) demo_files = (Inr ''JPEG:6'', demo_files)"
    by (simp add: demo_lib_def demo_web_def)
  have tmpdir: "tmpdir_create demo_lib demo_files = (Inr ''/tmp/tmpdemo'', demo_files)"
    by (simp add: demo_lib_def)
  have fname: "''/tmp/tmpdemo/img'' = path_join demo_lib ''/tmp/tmpdemo'' ''img''"
    by (simp add: demo_lib_def)
  have written: "write_bytes demo_lib ''/tmp/tmpdemo/img'' ''JPEG:6'' demo_files = (Inr (), ?w3)"
    by (simp add: demo_lib_def)
  have rotated: "exif_rotated_image demo_lib (Some ''/tmp/tmpdemo/img'')
      (?w3, [] @ [QImageNew None, UrlopenRead (url ?u), TmpdirCreate,
                  OpenWrite ''/tmp/tmpdemo/img'' ''JPEG:6'',
                  Logged DEBUG ''Temporarily saved in: {fname}'' [PyStr ''/tmp/tmpdemo/img'']])
      = (Inr (Transformed (Decoded ''JPEG:6'') (Rotate QTransform 90)),
         (?w3, [QImageNew None, UrlopenRead ''https://example.com/photo.jpg'', TmpdirCreate,
                OpenWrite ''/tmp/tmpdemo/img'' ''JPEG:6'',
                Logged DEBUG ''Temporarily saved in: {fname}'' [PyStr ''/tmp/tmpdemo/img''],
                QImageNew (Some ''/tmp/tmpdemo/img''), PiexifLoad (Some ''/tmp/tmpdemo/img'')]))"
    by (simp add: exif_rotated_image_def and_then_def query_def ret_def demo_lib_def
        demo_exif_def apply_orientation_def ImageIFD_Orientation_def)
  have cleanup: "tmpdir_cleanup demo_lib ''/tmp/tmpdemo'' ?w3 = (Inr (), demo_files)"
    by (simp add: demo_lib_def demo_files_def)
  show ?thesis
    using load_image_download [OF nonlocal null download tmpdir fname written rotated cleanup]
    by simp
qed

section \<open>Properties of the build script\<close>

subsection \<open>A failed command stops the script\<close>

lemma guardedI:
  assumes "\<And>w tr r w' tr'. m (w, tr) = (r, (w', tr')) \<Longrightarrow>
    \<exists>added. tr' = tr @ added \<and> stops_at_failed_run r added"
  shows "guarded m"
  unfolding guarded_def
proof (intro allI)
  fix w tr
  obtain r w' tr' where run: "m (w, tr) = (r, (w', tr'))"
    by (metis prod_cases3)
  from assms [OF run] show "case m (w, tr) of
      (r, (w', tr')) \<Rightarrow> \<exists>added. tr' = tr @ added \<and> stops_at_failed_run r added"
    by (simp add: run)
qed

lemma guardedD:
  assumes "guarded m" and "m (w, tr) = (r, (w', tr'))"
  shows "\<exists>added. tr' = tr @ added \<and> stops_at_failed_run r added"
  using assms unfolding guarded_def by (auto split: prod.splits)

lemma stops_no_failed: "\<not> list_ex failed_run added \<Longrightarrow> stops_at_failed_run r added"
  by (simp add: stops_at_failed_run_def)

lemma stops_Inr: "stops_at_failed_run (Inr x) added \<Longrightarrow> \<not> list_ex failed_run added"
  by (auto simp: stops_at_failed_run_def)

lemma stops_append:
  assumes "\<not> list_ex failed_run a1" and "stops_at_failed_run r a2"
  shows "stops_at_failed_run r (a1 @ a2)"
proof (cases "list_ex failed_run a2")
  case False
  with assms(1) show ?thesis
    by (simp add: stops_at_failed_run_def)
next
  case True
  with assms(2) obtain pre cmd c rc where
    "a2 = pre @ [SubprocessRun cmd c (Inr rc)]" "\<not> list_ex failed_run pre" "rc \<noteq> 0"
    "r = Inl (AssertionError ''Failed with exit code {result.returncode}'' [PyInt rc])"
    unfolding stops_at_failed_run_def by blast
  with assms(1) have "a1 @ a2 = (a1 @ pre) @ [SubprocessRun cmd c (Inr rc)]
      \<and> \<not> list_ex failed_run (a1 @ pre) \<and> rc \<noteq> 0
      \<and> r = Inl (AssertionError ''Failed with exit code {result.returncode}'' [PyInt rc])"
    by simp
  then show ?thesis
    unfolding stops_at_failed_run_def by blast
qed

lemma guarded_ret: "guarded (ret x)"
  by (rule guardedI) (simp add: ret_def stops_at_failed_run_def)

lemma guarded_raise_exn: "guarded (raise_exn e)"
  by (rule guardedI) (simp add: raise_exn_def stops_at_failed_run_def)

lemma guarded_of_result: "guarded (of_result r)"
  by (rule guardedI) (simp add: of_result_def stops_at_failed_run_def)

lemma guarded_logger: "guarded (logger lvl msg vals)"
  by (rule guardedI) (auto simp: logger_def stops_at_failed_run_def)

lemma guarded_query: "\<not> failed_run ev \<Longrightarrow> guarded (query ev f)"
  by (rule guardedI) (auto simp: query_def stops_at_failed_run_def)

lemma guarded_call: "\<not> failed_run ev \<Longrightarrow> guarded (call ev f)"
  by (rule guardedI) (auto simp: call_def stops_at_failed_run_def split: prod.splits)

lemma guarded_attempt_call: "\<not> failed_run ev \<Longrightarrow> guarded (attempt (call ev f))"
  by (rule guardedI) (auto simp: attempt_def call_def stops_at_failed_run_def split: prod.splits)

lemma guarded_path_exists: "guarded (path_exists os p)"
  by (rule guardedI) (auto simp: path_exists_def stops_at_failed_run_def)

lemma guarded_getitem: "guarded (getitem d k)"
  by (cases "d k") (simp_all add: getitem_def guarded_ret guarded_raise_exn)

lemma guarded_and_then:
  assumes m: "guarded m" and k: "\<And>x. guarded (k x)"
  shows "guarded (and_then m k)"
proof (rule guardedI)
  fix w tr r w' tr'
  assume run: "and_then m k (w, tr) = (r, (w', tr'))"
  obtain r1 w1 tr1 where first: "m (w, tr) = (r1, (w1, tr1))"
    by (metis prod_cases3)
  from guardedD [OF m first] obtain a1 where a1: "tr1 = tr @ a1" "stops_at_failed_run r1 a1"
    by blast
  show "\<exists>added. tr' = tr @ added \<and> stops_at_failed_run r added"
  proof (cases r1)
    case (Inl e)
    with run first have "r = Inl e" "tr' = tr1"
      by (simp_all add: and_then_def)
    with a1 Inl show ?thesis
      by (auto simp: stops_at_failed_run_def)
  next
    case (Inr x)
    with run first have second: "k x (w1, tr1) = (r, (w', tr'))"
      by (simp add: and_then_def)
    from guardedD [OF k second] obtain a2 where a2: "tr' = tr1 @ a2" "stops_at_failed_run r a2"
      by blast
    from a1 Inr have "\<not> list_ex failed_run a1"
      by (auto dest: stops_Inr)
    then have "stops_at_failed_run r (a1 @ a2)"
      using a2(2) by (rule stops_append)
    with a1(1) a2(1) show ?thesis
      by auto
  qed
qed

lemma guarded_if: "guarded m \<Longrightarrow> guarded n \<Longrightarrow> guarded (if b then m else n)"
  by simp

lemma run_command_run:
  assumes "subprocess_run os cmd c w = (Inr rc, w')"
  shows "run_command os cmd c (w, tr)
    = (if rc = 0 then Inr ()
       else Inl (AssertionError ''Failed with exit code {result.returncode}'' [PyInt rc]),
       (w', tr @ [Logged INFO ''Running command: {args}'' [PyTuple cmd],
                  SubprocessRun cmd c (Inr rc)]))"
  using assms
  by (simp add: run_command_def and_then_def logger_def subprocess_run_call_def ret_def
      raise_exn_def)

lemma run_command_raised:
  assumes "subprocess_run os cmd c w = (Inl e, w')"
  shows "run_command os cmd c (w, tr)
    = (Inl e, (w', tr @ [Logged INFO ''Running command: {args}'' [PyTuple cmd],
                         SubprocessRun cmd c (Inl e)]))"
  using assms
  by (simp add: run_command_def and_then_def logger_def subprocess_run_call_def)

lemma guarded_run_command: "guarded (run_command os cmd c)"
proof (rule guardedI)
  fix w tr r w' tr'
  assume run: "run_command os cmd c (w, tr) = (r, (w', tr'))"
  obtain res w1 where sub: "subprocess_run os cmd c w = (res, w1)"
    by (cases "subprocess_run os cmd c w")
  show "\<exists>added. tr' = tr @ added \<and> stops_at_failed_run r added"
  proof (cases res)
    case (Inl e)
    with run sub show ?thesis
      by (auto simp: run_command_raised stops_at_failed_run_def)
  next
    case (Inr rc)
    with sub have eq: "subprocess_run os cmd c w = (Inr rc, w1)"
      by simp
    let ?lg = "Logged INFO ''Running command: {args}'' [PyTuple cmd]"
    show ?thesis
    proof (cases "rc = 0")
      case True
      with run run_command_run [OF eq, of tr] show ?thesis
        by (auto simp: stops_at_failed_run_def)
    next
      case False
      with run run_command_run [OF eq, of tr]
      have r: "r = Inl (AssertionError ''Failed with exit code {result.returncode}'' [PyInt rc])"
        and tr': "tr' = tr @ ([?lg] @ [SubprocessRun cmd c (Inr rc)])"
        by auto
      have "stops_at_failed_run r ([?lg] @ [SubprocessRun cmd c (Inr rc)])"
        unfolding stops_at_failed_run_def using False r
        by (intro impI exI [of _ "[?lg]"] exI [of _ cmd] exI [of _ c] exI [of _ rc]) simp
      with tr' show ?thesis
        by blast
    qed
  qed
qed

lemma guarded_download_file: "guarded (download_file os a u f)"
  unfolding download_file_def
  by (intro guarded_and_then guarded_if guarded_ret guarded_path_exists guarded_logger
      guarded_call) simp_all

lemma guarded_copy_lib: "guarded (copy_lib os existing_files excludes lib paths)"
  unfolding copy_lib_def
  by (intro guarded_and_then guarded_if guarded_ret guarded_path_exists guarded_logger
      guarded_call) simp_all

lemma guarded_copy_libs: "guarded (copy_libs os existing_files excludes libs paths)"
  by (induction libs arbitrary: paths)
    (auto intro: guarded_ret guarded_and_then guarded_copy_lib)

lemma guarded_copy_so_files: "guarded (copy_so_files os excludes libs)"
  unfolding copy_so_files_def
  by (intro guarded_and_then guarded_query guarded_copy_libs) simp

lemma guarded_read_data: "guarded (read_data os a)"
  unfolding read_data_def
  by (intro guarded_and_then guarded_ret guarded_logger guarded_call guarded_of_result
      guarded_getitem) simp_all

lemma guarded_write_run_script: "guarded (write_run_script os paths)"
  unfolding write_run_script_def
  by (intro guarded_and_then guarded_logger guarded_call) simp_all

lemma guarded_rmtree_handler:
  "guarded (case r of Inl (FileNotFoundError x) \<Rightarrow> ret () | Inl e \<Rightarrow> raise_exn e
            | Inr y \<Rightarrow> ret ())"
  by (auto split: sum.splits pyexn.splits intro: guarded_ret guarded_raise_exn)

lemma guarded_build: "guarded (build os a)"
  unfolding build_def
  by (intro guarded_and_then guarded_download_file guarded_attempt_call
      guarded_rmtree_handler guarded_run_command guarded_read_data guarded_if guarded_ret
      guarded_logger guarded_copy_so_files guarded_write_run_script)
    (simp_all add: split_def guarded_and_then guarded_if guarded_ret guarded_run_command
      guarded_logger guarded_copy_so_files guarded_write_run_script
      guarded_download_file)

lemma failed_run_is_last:
  assumes "stops_at_failed_run r (pre @ SubprocessRun cmd c (Inr rc) # post)" and "rc \<noteq> 0"
  shows "post = [] \<and> r = Inl (AssertionError ''Failed with exit code {result.returncode}''
    [PyInt rc])"
proof -
  from assms obtain pre' cmd' c' rc' where
    eq: "pre @ SubprocessRun cmd c (Inr rc) # post = pre' @ [SubprocessRun cmd' c' (Inr rc')]"
    and clean: "\<not> list_ex failed_run pre'"
    and r: "r = Inl (AssertionError ''Failed with exit code {result.returncode}'' [PyInt rc'])"
    unfolding stops_at_failed_run_def by auto
  have post: "post = []"
  proof (rule ccontr)
    assume "post \<noteq> []"
    then have "pre' = pre @ SubprocessRun cmd c (Inr rc) # butlast post"
      using eq by (metis append_Cons append_assoc butlast.simps(2) butlast_append butlast_snoc list.distinct(1))
    with clean assms(2) show False
      by simp
  qed
  with eq have "rc' = rc"
    by simp
  with post r show ?thesis
    by simp
qed

text \<open>
  C4.  When the subprocess of \<open>run_command\<close> gives the exit code \<open>rc\<close>: for \<open>rc = 0\<close>
  the code after \<open>run_command\<close> (any continuation \<open>k\<close>) runs next; for \<open>rc \<noteq> 0\<close>
  \<open>run_command\<close> raises the assertion error and the code after it does not run.  In the
  build script: a command of the trace with a non-zero exit code is the last event of
  the trace, and the script ended with that assertion error.
\<close>

theorem run_command_exit_code:
  "(\<forall>k w tr rc w'. subprocess_run os cmd c w = (Inr rc, w') \<longrightarrow>
      and_then (run_command os cmd c) k (w, tr)
        = (if rc = 0
           then k () (w', tr @ [Logged INFO ''Running command: {args}'' [PyTuple cmd],
                               SubprocessRun cmd c (Inr rc)])
           else (Inl (AssertionError ''Failed with exit code {result.returncode}'' [PyInt rc]),
                 (w', tr @ [Logged INFO ''Running command: {args}'' [PyTuple cmd],
                            SubprocessRun cmd c (Inr rc)]))))
   \<and> (\<forall>a w r w' pre rc post.
        build os a (w, []) = (r, (w', pre @ SubprocessRun cmd c (Inr rc) # post)) \<and> rc \<noteq> 0 \<longrightarrow>
        post = []
        \<and> r = Inl (AssertionError ''Failed with exit code {result.returncode}'' [PyInt rc]))"
proof (intro conjI allI impI)
  fix k :: "unit \<Rightarrow> ('a, 'b) prog" and w tr rc w'
  assume "subprocess_run os cmd c w = (Inr rc, w')"
  from run_command_run [OF this, of tr]
  show "and_then (run_command os cmd c) k (w, tr)
        = (if rc = 0
           then k () (w', tr @ [Logged INFO ''Running command: {args}'' [PyTuple cmd],
                               SubprocessRun cmd c (Inr rc)])
           else (Inl (AssertionError ''Failed with exit code {result.returncode}'' [PyInt rc]),
                 (w', tr @ [Logged INFO ''Running command: {args}'' [PyTuple cmd],
                            SubprocessRun cmd c (Inr rc)])))"
    by (simp add: and_then_def)
next
  fix a w r w' pre rc post
  assume run: "build os a (w, []) = (r, (w', pre @ SubprocessRun cmd c (Inr rc) # post))
    \<and> rc \<noteq> 0"
  from guardedD [OF guarded_build] run
  have "stops_at_failed_run r (pre @ SubprocessRun cmd c (Inr rc) # post)"
    by fastforce
  with run have both: "post = [] \<and> r = Inl (AssertionError
      ''Failed with exit code {result.returncode}'' [PyInt rc])"
    by (auto dest: failed_run_is_last)
  from both show "post = []" ..
  from both show "r = Inl (AssertionError ''Failed with exit code {result.returncode}''
    [PyInt rc])" ..
qed

theorem run_command_exit_code_witness:
  "snd (snd (build (demo_os demo_doc pip_fails) demo_args (demo_disk, [])))
     = [PathExists ''python.appimage'' False,
        Logged INFO ''Downloading: {url}'' [PyStr python_url],
        Logged INFO ''Saving as: {filename}'' [PyStr ''python.appimage''],
        Urlretrieve python_url ''python.appimage'',
        Chmod ''python.appimage'' 493,
        Rmtree ''squashfs-root'',
        Logged INFO ''Running command: {args}'' [PyTuple extract_cmd],
        SubprocessRun extract_cmd True (Inr 0),
        Logged INFO ''Running command: {args}'' [PyTuple pip_cmd]]
       @ [SubprocessRun pip_cmd False (Inr 1)]
   \<and> fst (build (demo_os demo_doc pip_fails) demo_args (demo_disk, []))
     = Inl (AssertionError ''Failed with exit code {result.returncode}'' [PyInt 1])"
proof -
  let ?run = "build (demo_os demo_doc pip_fails) demo_args (demo_disk, [])"
  let ?pre = "[PathExists ''python.appimage'' False,
        Logged INFO ''Downloading: {url}'' [PyStr python_url],
        Logged INFO ''Saving as: {filename}'' [PyStr ''python.appimage''],
        Urlretrieve python_url ''python.appimage'',
        Chmod ''python.appimage'' 493,
        Rmtree ''squashfs-root'',
        Logged INFO ''Running command: {args}'' [PyTuple extract_cmd],
        SubprocessRun extract_cmd True (Inr 0),
        Logged INFO ''Running command: {args}'' [PyTuple pip_cmd]]"
  have tr: "snd (snd ?run) = ?pre @ SubprocessRun pip_cmd False (Inr 1) # []"
    by code_simp
  have "?run = (fst ?run, (fst (snd ?run), snd (snd ?run)))"
    by simp
  then have "?run = (fst ?run, (fst (snd ?run), ?pre @ SubprocessRun pip_cmd False (Inr 1) # []))"
    by (simp only: tr)
  moreover have "(1::int) \<noteq> 0"
    by simp
  ultimately have run:
    "?run = (fst ?run, (fst (snd ?run), ?pre @ SubprocessRun pip_cmd False (Inr 1) # []))
      \<and> (1::int) \<noteq> 0"
    by (rule conjI)
  from run_command_exit_code [of "demo_os demo_doc pip_fails" pip_cmd False,
      THEN conjunct2, rule_format, OF run]
  have res: "fst ?run
      = Inl (AssertionError ''Failed with exit code {result.returncode}'' [PyInt 1])"
    by (rule conjunct2)
  from tr res show ?thesis
    by (rule conjI)
qed

subsection \<open>The library-copy loop\<close>

lemma and_then_InrD:
  assumes "and_then m k s = (Inr y, s'')"
  shows "\<exists>x s'. m s = (Inr x, s') \<and> k x s' = (Inr y, s'')"
  using assms by (auto simp: and_then_def split: prod.splits sum.splits)

lemma and_then_ret: "and_then (ret x) k s = k x s"
  by (simp add: and_then_def ret_def)

lemma and_then_logger:
  "and_then (logger lvl msg vals) k (w, tr) = k () (w, tr @ [Logged lvl msg vals])"
  by (simp add: and_then_def logger_def)

lemma and_then_query: "and_then (query ev f) k (w, tr) = k (f w) (w, tr @ [ev])"
  by (simp add: and_then_def query_def)

lemma and_then_path_exists:
  "and_then (path_exists os p) k (w, tr)
    = k (os_path_exists os w p) (w, tr @ [PathExists p (os_path_exists os w p)])"
  by (simp add: and_then_def path_exists_def)

lemma and_then_assoc: "and_then (and_then m k) h = and_then m (\<lambda>x. and_then (k x) h)"
  by (rule ext) (simp add: and_then_def split: prod.splits sum.splits)

lemma and_then_raise_exn: "and_then (raise_exn e) k s = (Inl e, s)"
  by (simp add: and_then_def raise_exn_def)

lemma and_then_of_result:
  "and_then (of_result r) k s = (case r of Inl e \<Rightarrow> (Inl e, s) | Inr x \<Rightarrow> k x s)"
  by (simp add: and_then_def of_result_def split: sum.splits)

lemma and_then_call:
  "and_then (call ev f) k (w, tr)
    = (case f w of (Inl e, w') \<Rightarrow> (Inl e, (w', tr @ [ev])) | (Inr x, w') \<Rightarrow> k x (w', tr @ [ev]))"
  by (simp add: and_then_def call_def split: prod.splits sum.splits)

lemmas seq_simps = and_then_assoc and_then_ret and_then_raise_exn and_then_logger and_then_query
  and_then_path_exists and_then_of_result and_then_call

text \<open>The part of \<open>copy_lib\<close> after the two tests, against \<open>described_copy\<close>.\<close>

lemma copy_body_described:
  assumes run: "and_then (call (Makedirs d) (os_makedirs os d)) (\<lambda>_.
           and_then (logger DEBUG msg vals) (\<lambda>_.
           and_then (call (Copyfile src dst) (shutil_copyfile os src dst)) (\<lambda>_.
           ret p))) (w, tr) = (r, (w', tr'))"
  shows "(case os_makedirs os d w of
            (Inl e, w1) \<Rightarrow> r = Inl e \<and> w' = w1 \<and> filter is_action tr' = filter is_action tr @ [Makedirs d]
          | (Inr x, w1) \<Rightarrow>
              (case shutil_copyfile os src dst w1 of
                 (Inl e, w2) \<Rightarrow> r = Inl e \<and> w' = w2
                   \<and> filter is_action tr' = filter is_action tr @ [Makedirs d, Copyfile src dst]
               | (Inr y, w2) \<Rightarrow> r = Inr p \<and> w' = w2
                   \<and> filter is_action tr' = filter is_action tr @ [Makedirs d, Copyfile src dst]))"
proof -
  obtain r1 w1 where mk: "os_makedirs os d w = (r1, w1)"
    by (cases "os_makedirs os d w")
  obtain r2 w2 where cp: "shutil_copyfile os src dst w1 = (r2, w2)"
    by (cases "shutil_copyfile os src dst w1")
  from run mk cp show ?thesis
    by (cases r1; cases r2) (auto simp: and_then_def call_def logger_def ret_def)
qed

lemma copy_lib_skipped:
  assumes "entry_skipped os existing_files excludes lib"
    and "copy_lib os existing_files excludes lib paths (w, tr) = (r, (w', tr'))"
  shows "r = Inr paths \<and> w' = w \<and> filter is_action tr' = filter is_action tr"
  using assms
  by (auto simp: entry_skipped_def copy_lib_def and_then_logger ret_def split: if_splits)

lemma copy_lib_described:
  assumes skipped: "\<not> entry_skipped os existing_files excludes lib"
    and run: "copy_lib os existing_files excludes lib paths (w, tr) = (r, (w', tr'))"
    and described: "described_copy os lib w = (res, w0, acts)"
  shows "w' = w0 \<and> filter is_action tr' = filter is_action tr @ acts
    \<and> r = (case res of Some e \<Rightarrow> Inl e
                       | None \<Rightarrow> Inr (List.insert (os_path_dirname os lib) paths))"
proof -
  let ?src = "entry_source os w lib"
  let ?dst = "''squashfs-root'' @ ?src"
  from skipped run have body: "and_then
      (call (Makedirs (os_path_dirname os ?dst)) (os_makedirs os (os_path_dirname os ?dst)))
      (\<lambda>_. and_then (logger DEBUG ''Copying {filename} to {dest}'' [PyStr ?src, PyStr ?dst])
      (\<lambda>_. and_then (call (Copyfile ?src ?dst) (shutil_copyfile os ?src ?dst))
      (\<lambda>_. ret (List.insert (os_path_dirname os lib) paths))))
      (w, tr @ [PathExists lib (os_path_exists os w lib)]) = (r, (w', tr'))"
    by (simp add: entry_skipped_def copy_lib_def entry_source_def and_then_path_exists
        and_then_ret)
  obtain r1 w1 where mk: "os_makedirs os (os_path_dirname os ?dst) w = (r1, w1)"
    by (cases "os_makedirs os (os_path_dirname os ?dst) w")
  obtain r2 w2 where cp: "shutil_copyfile os ?src ?dst w1 = (r2, w2)"
    by (cases "shutil_copyfile os ?src ?dst w1")
  from copy_body_described [OF body] mk cp described show ?thesis
    by (cases r1; cases r2) (auto simp: described_copy_def Let_def)
qed

lemma copy_libs_described:
  assumes "copy_libs os existing_files excludes libs paths (w, tr) = (r, (w', tr'))"
    and "described_loop os existing_files excludes libs w = (res, w0, acts)"
  shows "w' = w0 \<and> filter is_action tr' = filter is_action tr @ acts
    \<and> r = (case res of Some e \<Rightarrow> Inl e
                       | None \<Rightarrow> Inr (fold (collect_path os existing_files excludes) libs paths))"
  using assms
proof (induction libs arbitrary: paths w tr acts)
  case Nil
  then show ?case
    by (simp add: ret_def)
next
  case (Cons lib libs)
  obtain r1 w1 tr1 where
    first: "copy_lib os existing_files excludes lib paths (w, tr) = (r1, (w1, tr1))"
    by (metis prod_cases3)
  show ?case
  proof (cases "entry_skipped os existing_files excludes lib")
    case True
    from copy_lib_skipped [OF True first]
    have r1: "r1 = Inr paths" "w1 = w" "filter is_action tr1 = filter is_action tr"
      by simp_all
    from Cons.prems(1) first r1
    have rest: "copy_libs os existing_files excludes libs paths (w, tr1) = (r, (w', tr'))"
      by (simp add: and_then_def)
    from Cons.prems(2) True
    have "described_loop os existing_files excludes libs w = (res, w0, acts)"
      by simp
    from Cons.IH [OF rest this] r1 True show ?thesis
      by (simp add: collect_path_def split: option.splits)
  next
    case False
    obtain res1 v1 acts1 where one: "described_copy os lib w = (res1, v1, acts1)"
      by (metis prod_cases3)
    from copy_lib_described [OF False first one]
    have c: "w1 = v1" "filter is_action tr1 = filter is_action tr @ acts1"
      "r1 = (case res1 of Some e \<Rightarrow> Inl e
                        | None \<Rightarrow> Inr (List.insert (os_path_dirname os lib) paths))"
      by simp_all
    show ?thesis
    proof (cases res1)
      case (Some e)
      with c first Cons.prems(1) have "r = Inl e" "w' = v1" "tr' = tr1"
        by (simp_all add: and_then_def)
      moreover from Cons.prems(2) False one Some have "res = Some e" "w0 = v1" "acts = acts1"
        by simp_all
      ultimately show ?thesis
        using c by simp
    next
      case None
      with c first Cons.prems(1)
      have rest: "copy_libs os existing_files excludes libs
          (List.insert (os_path_dirname os lib) paths) (v1, tr1) = (r, (w', tr'))"
        by (simp add: and_then_def)
      obtain acts2 where
        loop: "described_loop os existing_files excludes libs v1 = (res, w0, acts2)"
        and acts: "acts = acts1 @ acts2"
        using Cons.prems(2) False one None
        by (auto split: prod.splits)
      from Cons.IH [OF rest loop] c acts False show ?thesis
        by (simp add: collect_path_def split: option.splits)
    qed
  qed
qed

lemma copy_so_files_run:
  assumes "copy_so_files os excludes libs (w, tr) = (r, (w', tr'))"
  shows "\<exists>acts.
      described_loop os (os_walk_files os w ''squashfs-root'') excludes libs w
        = ((case r of Inl e \<Rightarrow> Some e | Inr paths \<Rightarrow> None), w', acts)
    \<and> filter is_action tr' = filter is_action tr @ acts
    \<and> (case r of
          Inl e \<Rightarrow> True
        | Inr paths \<Rightarrow>
            paths = described_paths os (os_walk_files os w ''squashfs-root'') excludes libs)"
proof -
  let ?files = "os_walk_files os w ''squashfs-root''"
  from assms have run:
    "copy_libs os ?files excludes libs [] (w, tr @ [Walk ''squashfs-root'']) = (r, (w', tr'))"
    by (simp add: copy_so_files_def and_then_query)
  obtain res w0 acts where loop: "described_loop os ?files excludes libs w = (res, w0, acts)"
    by (metis prod_cases3)
  from copy_libs_described [OF run loop]
  have "w' = w0" "filter is_action tr' = filter is_action tr @ acts"
    "r = (case res of Some e \<Rightarrow> Inl e
                     | None \<Rightarrow> Inr (fold (collect_path os ?files excludes) libs []))"
    by simp_all
  with loop show ?thesis
    by (cases res) (simp_all add: described_paths_def)
qed

text \<open>
  C10.  The library-copy loop (lines 104 to 123) does what \<open>described_loop\<close> says, with
  the files that \<open>os.walk\<close> finds under \<open>squashfs-root\<close> when the loop starts: on every
  run of it, whether it ends normally or with an exception, the exception (if any), the
  machine it leaves and the calls it made on the machine are those of
  \<open>described_loop\<close>.  So an entry whose basename is under \<open>squashfs-root\<close> or in
  \<open>excludes\<close> changes nothing and makes no call; for any other entry the directory of
  the destination is made with \<open>makedirs\<close> and the entry, if it is on the disk at that
  moment, else the entry without its extension, is copied with \<open>copyfile\<close> to its path
  under \<open>squashfs-root\<close>; and the first exception of \<open>makedirs\<close> or \<open>copyfile\<close> ends
  the loop and leaves it.
\<close>

theorem copy_so_files_described:
  assumes "copy_so_files os excludes libs (w, tr) = (r, (w', tr'))"
  shows "\<exists>acts.
      described_loop os (os_walk_files os w ''squashfs-root'') excludes libs w
        = ((case r of Inl e \<Rightarrow> Some e | Inr paths \<Rightarrow> None), w', acts)
    \<and> filter is_action tr' = filter is_action tr @ acts
    \<and> (case r of
          Inl e \<Rightarrow> True
        | Inr paths \<Rightarrow>
            paths = described_paths os (os_walk_files os w ''squashfs-root'') excludes libs)"
  using assms by (rule copy_so_files_run)

theorem copy_so_files_described_witness:
  "copy_so_files (demo_os demo_doc all_succeed) [''libc.so.6''] demo_libs
      (demo_extracted @ demo_disk, [])
    = (Inr [''/usr/lib''],
       ([''squashfs-root/usr/lib/libfoo.so'', ''squashfs-root/usr/lib/libxcb.so.1'']
          @ demo_extracted @ demo_disk,
        [Walk ''squashfs-root'',
         Logged DEBUG ''Skipping {lib} (already in appimage)'' [PyStr ''/usr/lib/libz.so.1''],
         Logged DEBUG ''Skipping {lib} (excluded)'' [PyStr ''/usr/lib/libc.so.6''],
         PathExists ''/usr/lib/libxcb.so.1'' True,
         Makedirs ''squashfs-root/usr/lib'',
         Logged DEBUG ''Copying {filename} to {dest}''
           [PyStr ''/usr/lib/libxcb.so.1'', PyStr ''squashfs-root/usr/lib/libxcb.so.1''],
         Copyfile ''/usr/lib/libxcb.so.1'' ''squashfs-root/usr/lib/libxcb.so.1'',
         PathExists ''/usr/lib/libfoo.so.2'' False,
         Makedirs ''squashfs-root/usr/lib'',
         Logged DEBUG ''Copying {filename} to {dest}''
           [PyStr ''/usr/lib/libfoo.so'', PyStr ''squashfs-root/usr/lib/libfoo.so''],
         Copyfile ''/usr/lib/libfoo.so'' ''squashfs-root/usr/lib/libfoo.so'']))
   \<and> described_loop (demo_os demo_doc all_succeed)
        (os_walk_files (demo_os demo_doc all_succeed) (demo_extracted @ demo_disk)
           ''squashfs-root'')
        [''libc.so.6''] demo_libs (demo_extracted @ demo_disk)
     = (None,
        [''squashfs-root/usr/lib/libfoo.so'', ''squashfs-root/usr/lib/libxcb.so.1'']
          @ demo_extracted @ demo_disk,
        [Makedirs ''squashfs-root/usr/lib'',
         Copyfile ''/usr/lib/libxcb.so.1'' ''squashfs-root/usr/lib/libxcb.so.1'',
         Makedirs ''squashfs-root/usr/lib'',
         Copyfile ''/usr/lib/libfoo.so'' ''squashfs-root/usr/lib/libfoo.so''])"
proof -
  let ?os = "demo_os demo_doc all_succeed"
  let ?w = "demo_extracted @ demo_disk"
  let ?w' = "[''squashfs-root/usr/lib/libfoo.so'', ''squashfs-root/usr/lib/libxcb.so.1'']
    @ demo_extracted @ demo_disk"
  let ?tr' = "[Walk ''squashfs-root'',
         Logged DEBUG ''Skipping {lib} (already in appimage)'' [PyStr ''/usr/lib/libz.so.1''],
         Logged DEBUG ''Skipping {lib} (excluded)'' [PyStr ''/usr/lib/libc.so.6''],
         PathExists ''/usr/lib/libxcb.so.1'' True,
         Makedirs ''squashfs-root/usr/lib'',
         Logged DEBUG ''Copying {filename} to {dest}''
           [PyStr ''/usr/lib/libxcb.so.1'', PyStr ''squashfs-root/usr/lib/libxcb.so.1''],
         Copyfile ''/usr/lib/libxcb.so.1'' ''squashfs-root/usr/lib/libxcb.so.1'',
         PathExists ''/usr/lib/libfoo.so.2'' False,
         Makedirs ''squashfs-root/usr/lib'',
         Logged DEBUG ''Copying {filename} to {dest}''
           [PyStr ''/usr/lib/libfoo.so'', PyStr ''squashfs-root/usr/lib/libfoo.so''],
         Copyfile ''/usr/lib/libfoo.so'' ''squashfs-root/usr/lib/libfoo.so'']"
  have run: "copy_so_files ?os [''libc.so.6''] demo_libs (?w, [])
      = (Inr [''/usr/lib''], (?w', ?tr'))"
    by code_simp
  from copy_so_files_described [OF run] obtain acts where
    loop: "described_loop ?os (os_walk_files ?os ?w ''squashfs-root'') [''libc.so.6'']
        demo_libs ?w = (None, ?w', acts)"
    and acts: "filter is_action ?tr' = filter is_action [] @ acts"
    by auto
  from acts have "acts = [Makedirs ''squashfs-root/usr/lib'',
         Copyfile ''/usr/lib/libxcb.so.1'' ''squashfs-root/usr/lib/libxcb.so.1'',
         Makedirs ''squashfs-root/usr/lib'',
         Copyfile ''/usr/lib/libfoo.so'' ''squashfs-root/usr/lib/libfoo.so'']"
    by simp
  with loop run show ?thesis
    by (simp only: simp_thms)
qed

subsection \<open>A successful run of the script\<close>

lemma read_data_InrD:
  assumes "read_data os a (w, tr) = (Inr (libs, packages, excludes), (w', tr'))"
  shows "\<exists>jtext d. open_read os (jsonfile a) w = (Inr jtext, w') \<and> json_loads os jtext = Inr d
    \<and> d ''libs'' = Some libs \<and> d ''packages'' = Some packages \<and> d ''excludes'' = Some excludes
    \<and> tr' = tr @ [Logged INFO ''Reading from: {args.jsonfile}'' [PyStr (jsonfile a)],
                  OpenRead (jsonfile a)]"
proof -
  obtain r1 w1 where opened: "open_read os (jsonfile a) w = (r1, w1)"
    by (cases "open_read os (jsonfile a) w")
  show ?thesis
  proof (cases r1)
    case (Inl e)
    with assms opened show ?thesis
      by (simp add: read_data_def seq_simps)
  next
    case jtext: (Inr jtext)
    show ?thesis
    proof (cases "json_loads os jtext")
      case (Inl e)
      with assms opened jtext show ?thesis
        by (simp add: read_data_def seq_simps)
    next
      case (Inr d)
      with assms opened jtext show ?thesis
        by (cases "d ''libs''"; cases "d ''packages''"; cases "d ''excludes''")
          (simp_all add: read_data_def seq_simps getitem_def ret_def)
    qed
  qed
qed

lemma run_command_InrD:
  assumes "run_command os cmd c (w, tr) = (Inr x, (w', tr'))"
  shows "subprocess_run os cmd c w = (Inr 0, w')
    \<and> filter is_action tr' = filter is_action tr @ [SubprocessRun cmd c (Inr 0)]"
proof -
  obtain res w1 where sub: "subprocess_run os cmd c w = (res, w1)"
    by (cases "subprocess_run os cmd c w")
  show ?thesis
  proof (cases res)
    case (Inl e)
    with assms sub show ?thesis
      by (simp add: run_command_raised)
  next
    case (Inr rc)
    with sub have eq: "subprocess_run os cmd c w = (Inr rc, w1)"
      by simp
    from run_command_run [OF eq, of tr] assms eq show ?thesis
      by (cases "rc = 0") auto
  qed
qed

lemma download_file_InrD:
  assumes "download_file os a u f (w, tr) = (Inr x, (w', tr'))"
  shows "fetched os a u f w w'
    \<and> filter is_action tr' = filter is_action tr @ fetch_actions os a u f w"
proof -
  have chmod: "\<And>w0 tr0. call (Chmod f 493) (os_chmod os f 493) (w0, tr0) = (Inr x, (w', tr'))
      \<Longrightarrow> os_chmod os f 493 w0 = (Inr (), w') \<and> tr' = tr0 @ [Chmod f 493]"
    by (auto simp: call_def split: prod.splits)
  have fetch: "\<And>tr0. and_then (call (Urlretrieve u f) (urlretrieve os u f))
        (\<lambda>_. call (Chmod f 493) (os_chmod os f 493)) (w, tr0) = (Inr x, (w', tr'))
      \<Longrightarrow> (case urlretrieve os u f w of
             (Inl e, wm) \<Rightarrow> False
           | (Inr y, wm) \<Rightarrow> os_chmod os f 493 wm = (Inr (), w'))
          \<and> tr' = tr0 @ [Urlretrieve u f, Chmod f 493]"
    by (auto simp: and_then_def call_def split: prod.splits sum.splits)
  show ?thesis
  proof (cases "\<not> redownload a \<and> os_path_exists os w f")
    case True
    with assms have "call (Chmod f 493) (os_chmod os f 493)
        (w, tr @ [PathExists f True, Logged INFO ''Found file: {filename}'' [PyStr f]])
      = (Inr x, (w', tr'))"
      by (simp add: download_file_def and_then_path_exists and_then_logger)
    from chmod [OF this] True show ?thesis
      by (simp add: fetched_def fetch_actions_def)
  next
    case False
    then consider "redownload a" | "\<not> redownload a" "\<not> os_path_exists os w f"
      by blast
    then show ?thesis
    proof cases
      case 1
      with assms have "and_then (call (Urlretrieve u f) (urlretrieve os u f))
          (\<lambda>_. call (Chmod f 493) (os_chmod os f 493))
          (w, tr @ [Logged INFO ''Downloading: {url}'' [PyStr u],
                    Logged INFO ''Saving as: {filename}'' [PyStr f]])
        = (Inr x, (w', tr'))"
        by (simp add: download_file_def and_then_assoc and_then_ret and_then_logger)
      from fetch [OF this] 1 show ?thesis
        by (simp add: fetched_def fetch_actions_def)
    next
      case 2
      with assms have "and_then (call (Urlretrieve u f) (urlretrieve os u f))
          (\<lambda>_. call (Chmod f 493) (os_chmod os f 493))
          (w, tr @ [PathExists f False, Logged INFO ''Downloading: {url}'' [PyStr u],
                    Logged INFO ''Saving as: {filename}'' [PyStr f]])
        = (Inr x, (w', tr'))"
        by (simp add: download_file_def and_then_assoc and_then_path_exists and_then_logger)
      from fetch [OF this] 2 show ?thesis
        by (simp add: fetched_def fetch_actions_def)
    qed
  qed
qed

lemma write_run_script_InrD:
  assumes "write_run_script os paths (w, tr) = (Inr x, (w', tr'))"
  shows "\<exists>wa wb. os_remove os ''squashfs-root/AppRun'' w = (Inr (), wa)
    \<and> open_write os ''squashfs-root/AppRun'' (content os paths) wa = (Inr (), wb)
    \<and> os_chmod os ''squashfs-root/AppRun'' 493 wb = (Inr (), w')
    \<and> filter is_action tr' = filter is_action tr
      @ [Remove ''squashfs-root/AppRun'', OpenWrite ''squashfs-root/AppRun'' (content os paths),
         Chmod ''squashfs-root/AppRun'' 493]"
proof -
  obtain r1 w1 where rm: "os_remove os ''squashfs-root/AppRun'' w = (r1, w1)"
    by (cases "os_remove os ''squashfs-root/AppRun'' w")
  obtain r2 w2 where wr: "open_write os ''squashfs-root/AppRun'' (content os paths) w1 = (r2, w2)"
    by (cases "open_write os ''squashfs-root/AppRun'' (content os paths) w1")
  obtain r3 w3 where ch: "os_chmod os ''squashfs-root/AppRun'' 493 w2 = (r3, w3)"
    by (cases "os_chmod os ''squashfs-root/AppRun'' 493 w2")
  from assms rm wr ch show ?thesis
    by (cases r1; cases r2; cases r3)
      (auto simp: write_run_script_def seq_simps call_def)
qed

lemma rmtree_InrD:
  assumes "attempt (call (Rmtree d) (shutil_rmtree os d)) (w, tr) = (Inr r, s1)"
    and "(case r of Inl (FileNotFoundError x) \<Rightarrow> ret () | Inl e \<Rightarrow> raise_exn e
          | Inr y \<Rightarrow> ret ()) s1 = (Inr u, (w', tr'))"
  shows "shutil_rmtree os d w = (r, w')
    \<and> (r = Inr () \<or> (\<exists>x. r = Inl (FileNotFoundError x)))
    \<and> filter is_action tr' = filter is_action tr @ [Rmtree d]"
proof -
  from assms(2) have same: "s1 = (w', tr')"
    and r: "r = Inr () \<or> (\<exists>x. r = Inl (FileNotFoundError x))"
    by (auto simp: ret_def raise_exn_def split: sum.splits pyexn.splits)
  from assms(1) same have "shutil_rmtree os d w = (r, w')" "tr' = tr @ [Rmtree d]"
    by (auto simp: attempt_def call_def split: prod.splits)
  with r show ?thesis
    by simp
qed

lemma apt_InrD:
  assumes "(if skip_apt a then ret () else run_command os cmd False) (w, tr) = (Inr x, (w', tr'))"
  shows "(if skip_apt a then w' = w else subprocess_run os cmd False w = (Inr 0, w'))
    \<and> filter is_action tr'
      = filter is_action tr @ (if skip_apt a then [] else [SubprocessRun cmd False (Inr 0)])"
  using assms by (auto simp: ret_def dest: run_command_InrD)

lemma logger_InrD:
  assumes "logger lvl msg vals (w, tr) = (Inr x, (w', tr'))"
  shows "w' = w \<and> filter is_action tr' = filter is_action tr"
  using assms by (auto simp: logger_def)

text \<open>The steps of a run of the script that ends without an exception.\<close>

lemma build_success:
  assumes "build os a s0 = (Inr (), s')"
  shows "\<exists>s1 r s1' s2 s3 s4 libs packages excludes s5 s6 s6' paths s7 s8 s9.
    download_file os a python_url ''python.appimage'' s0 = (Inr (), s1)
    \<and> attempt (call (Rmtree ''squashfs-root'') (shutil_rmtree os ''squashfs-root'')) s1
        = (Inr r, s1')
    \<and> (case r of Inl (FileNotFoundError x) \<Rightarrow> ret () | Inl e \<Rightarrow> raise_exn e
         | Inr y \<Rightarrow> ret ()) s1' = (Inr (), s2)
    \<and> run_command os extract_cmd True s2 = (Inr (), s3)
    \<and> run_command os pip_cmd False s3 = (Inr (), s4)
    \<and> read_data os a s4 = (Inr (libs, packages, excludes), s5)
    \<and> (if skip_apt a then ret () else run_command os (apt_cmd packages) False) s5 = (Inr (), s6)
    \<and> logger INFO ''Copying .so files to appimage...'' [] s6 = (Inr (), s6')
    \<and> copy_so_files os excludes libs s6' = (Inr paths, s7)
    \<and> write_run_script os paths s7 = (Inr (), s8)
    \<and> download_file os a appimagetool_url ''appimagetool.appimage'' s8 = (Inr (), s9)
    \<and> run_command os (appimagetool_cmd a) False s9 = (Inr (), s')"
proof -
  from and_then_InrD [OF assms [unfolded build_def]] obtain s1 where
    1: "download_file os a python_url ''python.appimage'' s0 = (Inr (), s1)"
    and k1: "and_then (attempt (call (Rmtree ''squashfs-root'') (shutil_rmtree os ''squashfs-root'')))
      (\<lambda>r. and_then (case r of Inl (FileNotFoundError x) \<Rightarrow> ret () | Inl e \<Rightarrow> raise_exn e
                       | Inr y \<Rightarrow> ret ()) (\<lambda>_.
      and_then (run_command os extract_cmd True) (\<lambda>_.
      and_then (run_command os pip_cmd False) (\<lambda>_.
      and_then (read_data os a) (\<lambda>(libs, packages, excludes).
      and_then (if skip_apt a then ret () else run_command os (apt_cmd packages) False) (\<lambda>_.
      and_then (logger INFO ''Copying .so files to appimage...'' []) (\<lambda>_.
      and_then (copy_so_files os excludes libs) (\<lambda>paths.
      and_then (write_run_script os paths) (\<lambda>_.
      and_then (download_file os a appimagetool_url ''appimagetool.appimage'') (\<lambda>_.
      run_command os (appimagetool_cmd a) False)))))))))) s1 = (Inr (), s')"
    by auto
  from and_then_InrD [OF k1] obtain r s1' where
    2: "attempt (call (Rmtree ''squashfs-root'') (shutil_rmtree os ''squashfs-root'')) s1
        = (Inr r, s1')"
    and k2: "and_then (case r of Inl (FileNotFoundError x) \<Rightarrow> ret () | Inl e \<Rightarrow> raise_exn e
                       | Inr y \<Rightarrow> ret ()) (\<lambda>_.
      and_then (run_command os extract_cmd True) (\<lambda>_.
      and_then (run_command os pip_cmd False) (\<lambda>_.
      and_then (read_data os a) (\<lambda>(libs, packages, excludes).
      and_then (if skip_apt a then ret () else run_command os (apt_cmd packages) False) (\<lambda>_.
      and_then (logger INFO ''Copying .so files to appimage...'' []) (\<lambda>_.
      and_then (copy_so_files os excludes libs) (\<lambda>paths.
      and_then (write_run_script os paths) (\<lambda>_.
      and_then (download_file os a appimagetool_url ''appimagetool.appimage'') (\<lambda>_.
      run_command os (appimagetool_cmd a) False))))))))) s1' = (Inr (), s')"
    by auto
  from and_then_InrD [OF k2] obtain s2 where
    3: "(case r of Inl (FileNotFoundError x) \<Rightarrow> ret () | Inl e \<Rightarrow> raise_exn e
         | Inr y \<Rightarrow> ret ()) s1' = (Inr (), s2)"
    and k3: "and_then (run_command os extract_cmd True) (\<lambda>_.
      and_then (run_command os pip_cmd False) (\<lambda>_.
      and_then (read_data os a) (\<lambda>(libs, packages, excludes).
      and_then (if skip_apt a then ret () else run_command os (apt_cmd packages) False) (\<lambda>_.
      and_then (logger INFO ''Copying .so files to appimage...'' []) (\<lambda>_.
      and_then (copy_so_files os excludes libs) (\<lambda>paths.
      and_then (write_run_script os paths) (\<lambda>_.
      and_then (download_file os a appimagetool_url ''appimagetool.appimage'') (\<lambda>_.
      run_command os (appimagetool_cmd a) False)))))))) s2 = (Inr (), s')"
    by auto
  from and_then_InrD [OF k3] obtain s3 where
    4: "run_command os extract_cmd True s2 = (Inr (), s3)"
    and k4: "and_then (run_command os pip_cmd False) (\<lambda>_.
      and_then (read_data os a) (\<lambda>(libs, packages, excludes).
      and_then (if skip_apt a then ret () else run_command os (apt_cmd packages) False) (\<lambda>_.
      and_then (logger INFO ''Copying .so files to appimage...'' []) (\<lambda>_.
      and_then (copy_so_files os excludes libs) (\<lambda>paths.
      and_then (write_run_script os paths) (\<lambda>_.
      and_then (download_file os a appimagetool_url ''appimagetool.appimage'') (\<lambda>_.
      run_command os (appimagetool_cmd a) False))))))) s3 = (Inr (), s')"
    by auto
  from and_then_InrD [OF k4] obtain s4 where
    5: "run_command os pip_cmd False s3 = (Inr (), s4)"
    and k5: "and_then (read_data os a) (\<lambda>(libs, packages, excludes).
      and_then (if skip_apt a then ret () else run_command os (apt_cmd packages) False) (\<lambda>_.
      and_then (logger INFO ''Copying .so files to appimage...'' []) (\<lambda>_.
      and_then (copy_so_files os excludes libs) (\<lambda>paths.
      and_then (write_run_script os paths) (\<lambda>_.
      and_then (download_file os a appimagetool_url ''appimagetool.appimage'') (\<lambda>_.
      run_command os (appimagetool_cmd a) False)))))) s4 = (Inr (), s')"
    by auto
  from and_then_InrD [OF k5] obtain libs packages excludes s5 where
    6: "read_data os a s4 = (Inr (libs, packages, excludes), s5)"
    and k6: "and_then (if skip_apt a then ret () else run_command os (apt_cmd packages) False)
      (\<lambda>_.
      and_then (logger INFO ''Copying .so files to appimage...'' []) (\<lambda>_.
      and_then (copy_so_files os excludes libs) (\<lambda>paths.
      and_then (write_run_script os paths) (\<lambda>_.
      and_then (download_file os a appimagetool_url ''appimagetool.appimage'') (\<lambda>_.
      run_command os (appimagetool_cmd a) False))))) s5 = (Inr (), s')"
    by auto
  from and_then_InrD [OF k6] obtain s6 where
    7: "(if skip_apt a then ret () else run_command os (apt_cmd packages) False) s5 = (Inr (), s6)"
    and k7: "and_then (logger INFO ''Copying .so files to appimage...'' []) (\<lambda>_.
      and_then (copy_so_files os excludes libs) (\<lambda>paths.
      and_then (write_run_script os paths) (\<lambda>_.
      and_then (download_file os a appimagetool_url ''appimagetool.appimage'') (\<lambda>_.
      run_command os (appimagetool_cmd a) False)))) s6 = (Inr (), s')"
    by auto
  from and_then_InrD [OF k7] obtain s6' where
    8: "logger INFO ''Copying .so files to appimage...'' [] s6 = (Inr (), s6')"
    and k8: "and_then (copy_so_files os excludes libs) (\<lambda>paths.
      and_then (write_run_script os paths) (\<lambda>_.
      and_then (download_file os a appimagetool_url ''appimagetool.appimage'') (\<lambda>_.
      run_command os (appimagetool_cmd a) False))) s6' = (Inr (), s')"
    by auto
  from and_then_InrD [OF k8] obtain paths s7 where
    10: "copy_so_files os excludes libs s6' = (Inr paths, s7)"
    and k10: "and_then (write_run_script os paths) (\<lambda>_.
      and_then (download_file os a appimagetool_url ''appimagetool.appimage'') (\<lambda>_.
      run_command os (appimagetool_cmd a) False)) s7 = (Inr (), s')"
    by auto
  from and_then_InrD [OF k10] obtain s8 where
    11: "write_run_script os paths s7 = (Inr (), s8)"
    and k11: "and_then (download_file os a appimagetool_url ''appimagetool.appimage'') (\<lambda>_.
      run_command os (appimagetool_cmd a) False) s8 = (Inr (), s')"
    by auto
  from and_then_InrD [OF k11] obtain s9 where
    12: "download_file os a appimagetool_url ''appimagetool.appimage'' s8 = (Inr (), s9)"
    and 13: "run_command os (appimagetool_cmd a) False s9 = (Inr (), s')"
    by auto
  from 1 2 3 4 5 6 7 8 10 11 12 13 show ?thesis
    by (intro exI conjI)
qed

text \<open>
  C6, as the code has it.  A run of the script that ends without an exception has made
  these calls on the machine, in this order, each of them returning normally:
  the base runtime image is fetched by \<open>download_file\<close> (it is downloaded unless
  \<open>--redownload\<close> is not given and \<open>python.appimage\<close> is on the disk at the start,
  and made executable in both cases); the old \<open>squashfs-root\<close> is removed and the image
  extracted; the application is installed into it with pip; the JSON document is read and
  holds the three keys; the system packages of the document are installed unless
  \<open>--skip-apt\<close> is given; the library-copy loop makes the calls of \<open>described_loop\<close>
  for the libraries and excludes of the document (none when every entry is skipped);
  the launcher script \<open>AppRun\<close> is removed, written with the collected paths and made
  executable; \<open>appimagetool\<close> is fetched by \<open>download_file\<close>; and last the AppImage
  is packaged.
\<close>

theorem build_order:
  assumes "build os a (w, []) = (Inr (), (w', tr))"
  shows "\<exists>w1 r2 w2 w3 w4 jtext d libs packages excludes w5 w6 copies w7 wa wb w8 w9.
      fetched os a python_url ''python.appimage'' w w1
    \<and> shutil_rmtree os ''squashfs-root'' w1 = (r2, w2)
    \<and> (r2 = Inr () \<or> (\<exists>x. r2 = Inl (FileNotFoundError x)))
    \<and> subprocess_run os extract_cmd True w2 = (Inr 0, w3)
    \<and> subprocess_run os pip_cmd False w3 = (Inr 0, w4)
    \<and> open_read os (jsonfile a) w4 = (Inr jtext, w5)
    \<and> json_loads os jtext = Inr d
    \<and> d ''libs'' = Some libs \<and> d ''packages'' = Some packages \<and> d ''excludes'' = Some excludes
    \<and> (if skip_apt a then w6 = w5
        else subprocess_run os (apt_cmd packages) False w5 = (Inr 0, w6))
    \<and> described_loop os (os_walk_files os w6 ''squashfs-root'') excludes libs w6
        = (None, w7, copies)
    \<and> os_remove os ''squashfs-root/AppRun'' w7 = (Inr (), wa)
    \<and> open_write os ''squashfs-root/AppRun''
          (content os (described_paths os (os_walk_files os w6 ''squashfs-root'') excludes libs))
          wa = (Inr (), wb)
    \<and> os_chmod os ''squashfs-root/AppRun'' 493 wb = (Inr (), w8)
    \<and> fetched os a appimagetool_url ''appimagetool.appimage'' w8 w9
    \<and> subprocess_run os (appimagetool_cmd a) False w9 = (Inr 0, w')
    \<and> filter is_action tr
      = fetch_actions os a python_url ''python.appimage'' w
        @ [Rmtree ''squashfs-root'',
           SubprocessRun extract_cmd True (Inr 0),
           SubprocessRun pip_cmd False (Inr 0),
           OpenRead (jsonfile a)]
        @ (if skip_apt a then [] else [SubprocessRun (apt_cmd packages) False (Inr 0)])
        @ copies
        @ [Remove ''squashfs-root/AppRun'',
           OpenWrite ''squashfs-root/AppRun''
             (content os
               (described_paths os (os_walk_files os w6 ''squashfs-root'') excludes libs)),
           Chmod ''squashfs-root/AppRun'' 493]
        @ fetch_actions os a appimagetool_url ''appimagetool.appimage'' w8
        @ [SubprocessRun (appimagetool_cmd a) False (Inr 0)]"
proof -
  from build_success [OF assms]
  obtain s1 r s1' s2 s3 s4 libs packages excludes s5 s6 s6' paths s7 s8 s9
    where
      1: "download_file os a python_url ''python.appimage'' (w, []) = (Inr (), s1)"
      and 2: "attempt (call (Rmtree ''squashfs-root'') (shutil_rmtree os ''squashfs-root'')) s1
        = (Inr r, s1')"
      and 3: "(case r of Inl (FileNotFoundError x) \<Rightarrow> ret () | Inl e \<Rightarrow> raise_exn e
         | Inr y \<Rightarrow> ret ()) s1' = (Inr (), s2)"
      and 4: "run_command os extract_cmd True s2 = (Inr (), s3)"
      and 5: "run_command os pip_cmd False s3 = (Inr (), s4)"
      and 6: "read_data os a s4 = (Inr (libs, packages, excludes), s5)"
      and 7: "(if skip_apt a then ret () else run_command os (apt_cmd packages) False) s5
        = (Inr (), s6)"
      and 8: "logger INFO ''Copying .so files to appimage...'' [] s6 = (Inr (), s6')"
      and 10: "copy_so_files os excludes libs s6' = (Inr paths, s7)"
      and 11: "write_run_script os paths s7 = (Inr (), s8)"
      and 12: "download_file os a appimagetool_url ''appimagetool.appimage'' s8 = (Inr (), s9)"
      and 13: "run_command os (appimagetool_cmd a) False s9 = (Inr (), (w', tr))"
    by blast
  obtain w1 t1 where s1: "s1 = (w1, t1)" by (cases s1)
  obtain w2 t2 where s2: "s2 = (w2, t2)" by (cases s2)
  obtain w3 t3 where s3: "s3 = (w3, t3)" by (cases s3)
  obtain w4 t4 where s4: "s4 = (w4, t4)" by (cases s4)
  obtain w5 t5 where s5: "s5 = (w5, t5)" by (cases s5)
  obtain w6 t6 where s6: "s6 = (w6, t6)" by (cases s6)
  obtain v6 u6 where s6': "s6' = (v6, u6)" by (cases s6')
  obtain w7 t7 where s7: "s7 = (w7, t7)" by (cases s7)
  obtain w8 t8 where s8: "s8 = (w8, t8)" by (cases s8)
  obtain w9 t9 where s9: "s9 = (w9, t9)" by (cases s9)
  let ?files = "os_walk_files os w6 ''squashfs-root''"
  let ?paths = "described_paths os ?files excludes libs"
  let ?apt = "if skip_apt a then [] else [SubprocessRun (apt_cmd packages) False (Inr 0)]"
  let ?script = "[Remove ''squashfs-root/AppRun'',
    OpenWrite ''squashfs-root/AppRun'' (content os ?paths), Chmod ''squashfs-root/AppRun'' 493]"
  from download_file_InrD [OF 1 [unfolded s1]]
  have f1: "fetched os a python_url ''python.appimage'' w w1"
    and a1: "filter is_action t1 = fetch_actions os a python_url ''python.appimage'' w"
    by simp_all
  from rmtree_InrD [OF 2 [unfolded s1] 3 [unfolded s2]]
  have f2: "shutil_rmtree os ''squashfs-root'' w1 = (r, w2)"
    and r: "r = Inr () \<or> (\<exists>x. r = Inl (FileNotFoundError x))"
    and a2: "filter is_action t2 = filter is_action t1 @ [Rmtree ''squashfs-root'']"
    by blast+
  from run_command_InrD [OF 4 [unfolded s2 s3]]
  have f3: "subprocess_run os extract_cmd True w2 = (Inr 0, w3)"
    and a3: "filter is_action t3 = filter is_action t2 @ [SubprocessRun extract_cmd True (Inr 0)]"
    by blast+
  from run_command_InrD [OF 5 [unfolded s3 s4]]
  have f4: "subprocess_run os pip_cmd False w3 = (Inr 0, w4)"
    and a4: "filter is_action t4 = filter is_action t3 @ [SubprocessRun pip_cmd False (Inr 0)]"
    by blast+
  from read_data_InrD [OF 6 [unfolded s4 s5]] obtain jtext d where
    f5: "open_read os (jsonfile a) w4 = (Inr jtext, w5)" "json_loads os jtext = Inr d"
      "d ''libs'' = Some libs" "d ''packages'' = Some packages" "d ''excludes'' = Some excludes"
    and t5: "t5 = t4 @ [Logged INFO ''Reading from: {args.jsonfile}'' [PyStr (jsonfile a)],
                        OpenRead (jsonfile a)]"
    by blast
  from t5 have a5: "filter is_action t5 = filter is_action t4 @ [OpenRead (jsonfile a)]"
    by simp
  from apt_InrD [OF 7 [unfolded s5 s6]]
  have f6: "if skip_apt a then w6 = w5
      else subprocess_run os (apt_cmd packages) False w5 = (Inr 0, w6)"
    and a6: "filter is_action t6 = filter is_action t5 @ ?apt"
    by blast+
  from logger_InrD [OF 8 [unfolded s6 s6']]
  have v6: "v6 = w6" and u6: "filter is_action u6 = filter is_action t6"
    by blast+
  from copy_so_files_run [OF 10 [unfolded s6' s7 v6]] obtain copies where
    f7: "described_loop os ?files excludes libs w6 = (None, w7, copies)"
    and a7: "filter is_action t7 = filter is_action u6 @ copies"
    and paths: "paths = ?paths"
    by auto
  from write_run_script_InrD [OF 11 [unfolded s7 s8 paths]] obtain wa wb where
    f8: "os_remove os ''squashfs-root/AppRun'' w7 = (Inr (), wa)"
      "open_write os ''squashfs-root/AppRun'' (content os ?paths) wa = (Inr (), wb)"
      "os_chmod os ''squashfs-root/AppRun'' 493 wb = (Inr (), w8)"
    and a8: "filter is_action t8 = filter is_action t7 @ ?script"
    by blast
  from download_file_InrD [OF 12 [unfolded s8 s9]]
  have f9: "fetched os a appimagetool_url ''appimagetool.appimage'' w8 w9"
    and a9: "filter is_action t9
      = filter is_action t8 @ fetch_actions os a appimagetool_url ''appimagetool.appimage'' w8"
    by blast+
  from run_command_InrD [OF 13 [unfolded s9]]
  have f10: "subprocess_run os (appimagetool_cmd a) False w9 = (Inr 0, w')"
    and a10: "filter is_action tr
      = filter is_action t9 @ [SubprocessRun (appimagetool_cmd a) False (Inr 0)]"
    by blast+
  have acts: "filter is_action tr
      = fetch_actions os a python_url ''python.appimage'' w
        @ [Rmtree ''squashfs-root'',
           SubprocessRun extract_cmd True (Inr 0),
           SubprocessRun pip_cmd False (Inr 0),
           OpenRead (jsonfile a)]
        @ ?apt @ copies @ ?script
        @ fetch_actions os a appimagetool_url ''appimagetool.appimage'' w8
        @ [SubprocessRun (appimagetool_cmd a) False (Inr 0)]"
    unfolding a10 a9 a8 a7 u6 a6 a5 a4 a3 a2 a1 by simp
  from f1 f2 r f3 f4 f5 f6 f7 f8 f9 f10 acts show ?thesis
    by (intro exI conjI)
qed

theorem build_order_witness:
  "fst (build (demo_os demo_doc all_succeed) demo_args (demo_disk, [])) = Inr ()
   \<and> filter is_action (snd (snd (build (demo_os demo_doc all_succeed) demo_args (demo_disk, []))))
     = [Urlretrieve python_url ''python.appimage'', Chmod ''python.appimage'' 493,
        Rmtree ''squashfs-root'',
        SubprocessRun extract_cmd True (Inr 0),
        SubprocessRun pip_cmd False (Inr 0),
        OpenRead ''tools/linux_libs.json'',
        SubprocessRun (apt_cmd [''libxcb1'']) False (Inr 0),
        Makedirs ''squashfs-root/usr/lib'',
        Copyfile ''/usr/lib/libxcb.so.1'' ''squashfs-root/usr/lib/libxcb.so.1'',
        Makedirs ''squashfs-root/usr/lib'',
        Copyfile ''/usr/lib/libfoo.so'' ''squashfs-root/usr/lib/libfoo.so'',
        Remove ''squashfs-root/AppRun'',
        OpenWrite ''squashfs-root/AppRun''
          (content (demo_os demo_doc all_succeed) [''/usr/lib'']),
        Chmod ''squashfs-root/AppRun'' 493,
        Urlretrieve appimagetool_url ''appimagetool.appimage'',
        Chmod ''appimagetool.appimage'' 493,
        SubprocessRun (appimagetool_cmd demo_args) False (Inr 0)]
   \<and> (\<exists>copies w8.
        filter is_action
          (snd (snd (build (demo_os demo_doc all_succeed) demo_args (demo_disk, []))))
          = fetch_actions (demo_os demo_doc all_succeed) demo_args python_url
              ''python.appimage'' demo_disk
            @ [Rmtree ''squashfs-root'',
               SubprocessRun extract_cmd True (Inr 0),
               SubprocessRun pip_cmd False (Inr 0),
               OpenRead (jsonfile demo_args)]
            @ [SubprocessRun (apt_cmd [''libxcb1'']) False (Inr 0)]
            @ copies
            @ [Remove ''squashfs-root/AppRun'',
               OpenWrite ''squashfs-root/AppRun''
                 (content (demo_os demo_doc all_succeed)
                   (described_paths (demo_os demo_doc all_succeed)
                     (os_walk_files (demo_os demo_doc all_succeed)
                        (demo_extracted @ ''python.appimage'' # demo_disk) ''squashfs-root'')
                     [''libc.so.6''] demo_libs)),
               Chmod ''squashfs-root/AppRun'' 493]
            @ fetch_actions (demo_os demo_doc all_succeed) demo_args appimagetool_url
                ''appimagetool.appimage'' w8
            @ [SubprocessRun (appimagetool_cmd demo_args) False (Inr 0)]
        \<and> described_loop (demo_os demo_doc all_succeed)
            (os_walk_files (demo_os demo_doc all_succeed)
               (demo_extracted @ ''python.appimage'' # demo_disk) ''squashfs-root'')
            [''libc.so.6''] demo_libs (demo_extracted @ ''python.appimage'' # demo_disk)
          = (None,
             [''squashfs-root/usr/lib/libfoo.so'', ''squashfs-root/usr/lib/libxcb.so.1'']
               @ demo_extracted @ ''python.appimage'' # demo_disk,
             copies))"
proof -
  let ?os = "demo_os demo_doc all_succeed"
  let ?run = "build ?os demo_args (demo_disk, [])"
  have ok: "fst ?run = Inr ()"
    by code_simp
  have acts: "filter is_action (snd (snd ?run))
     = [Urlretrieve python_url ''python.appimage'', Chmod ''python.appimage'' 493,
        Rmtree ''squashfs-root'',
        SubprocessRun extract_cmd True (Inr 0),
        SubprocessRun pip_cmd False (Inr 0),
        OpenRead ''tools/linux_libs.json'',
        SubprocessRun (apt_cmd [''libxcb1'']) False (Inr 0),
        Makedirs ''squashfs-root/usr/lib'',
        Copyfile ''/usr/lib/libxcb.so.1'' ''squashfs-root/usr/lib/libxcb.so.1'',
        Makedirs ''squashfs-root/usr/lib'',
        Copyfile ''/usr/lib/libfoo.so'' ''squashfs-root/usr/lib/libfoo.so'',
        Remove ''squashfs-root/AppRun'',
        OpenWrite ''squashfs-root/AppRun''
          (content (demo_os demo_doc all_succeed) [''/usr/lib'']),
        Chmod ''squashfs-root/AppRun'' 493,
        Urlretrieve appimagetool_url ''appimagetool.appimage'',
        Chmod ''appimagetool.appimage'' 493,
        SubprocessRun (appimagetool_cmd demo_args) False (Inr 0)]"
    by code_simp
  have "?run = (fst ?run, (fst (snd ?run), snd (snd ?run)))"
    by simp
  then have run: "?run = (Inr (), (fst (snd ?run), snd (snd ?run)))"
    by (simp only: ok)
  from build_order [OF run]
  obtain w1 r2 w2 w3 w4 jtext d libs packages excludes w5 w6 copies w7 wa wb w8 w9 where
    f1: "fetched ?os demo_args python_url ''python.appimage'' demo_disk w1"
    and f2: "shutil_rmtree ?os ''squashfs-root'' w1 = (r2, w2)"
    and f3: "subprocess_run ?os extract_cmd True w2 = (Inr 0, w3)"
    and f4: "subprocess_run ?os pip_cmd False w3 = (Inr 0, w4)"
    and f5: "open_read ?os (jsonfile demo_args) w4 = (Inr jtext, w5)"
      "json_loads ?os jtext = Inr d"
      "d ''libs'' = Some libs" "d ''packages'' = Some packages" "d ''excludes'' = Some excludes"
    and f6: "if skip_apt demo_args then w6 = w5
      else subprocess_run ?os (apt_cmd packages) False w5 = (Inr 0, w6)"
    and f7: "described_loop ?os (os_walk_files ?os w6 ''squashfs-root'') excludes libs w6
        = (None, w7, copies)"
    and all: "filter is_action (snd (snd ?run))
      = fetch_actions ?os demo_args python_url ''python.appimage'' demo_disk
        @ [Rmtree ''squashfs-root'',
           SubprocessRun extract_cmd True (Inr 0),
           SubprocessRun pip_cmd False (Inr 0),
           OpenRead (jsonfile demo_args)]
        @ (if skip_apt demo_args then [] else [SubprocessRun (apt_cmd packages) False (Inr 0)])
        @ copies
        @ [Remove ''squashfs-root/AppRun'',
           OpenWrite ''squashfs-root/AppRun''
             (content ?os
               (described_paths ?os (os_walk_files ?os w6 ''squashfs-root'') excludes libs)),
           Chmod ''squashfs-root/AppRun'' 493]
        @ fetch_actions ?os demo_args appimagetool_url ''appimagetool.appimage'' w8
        @ [SubprocessRun (appimagetool_cmd demo_args) False (Inr 0)]"
    by blast
  have w1: "w1 = ''python.appimage'' # demo_disk"
    using f1 by (simp add: fetched_def demo_os_def demo_args_def demo_disk_def under_def
        split: if_splits)
  have w2: "w2 = ''python.appimage'' # demo_disk"
    using f2 unfolding w1 by (simp add: demo_os_def demo_disk_def under_def)
  have w3: "w3 = demo_extracted @ ''python.appimage'' # demo_disk"
    using f3 unfolding w2 by (simp add: demo_os_def all_succeed_def)
  have w4: "w4 = demo_extracted @ ''python.appimage'' # demo_disk"
    using f4 unfolding w3
    by (simp add: demo_os_def all_succeed_def pip_cmd_def extract_cmd_def)
  have w5: "w5 = w4" and d: "d = demo_doc"
    using f5(1,2) by (auto simp: demo_os_def split: if_splits)
  have doc: "libs = demo_libs" "packages = [''libxcb1'']" "excludes = [''libc.so.6'']"
    using f5(3-5) unfolding d by (simp_all add: demo_doc_def)
  have w6: "w6 = demo_extracted @ ''python.appimage'' # demo_disk"
    using f6 unfolding w5 w4
    by (simp add: demo_os_def demo_args_def all_succeed_def apt_cmd_def extract_cmd_def)
  have w7: "w7 = [''squashfs-root/usr/lib/libfoo.so'', ''squashfs-root/usr/lib/libxcb.so.1'']
      @ demo_extracted @ ''python.appimage'' # demo_disk"
  proof -
    have "fst (snd (described_loop ?os
        (os_walk_files ?os (demo_extracted @ ''python.appimage'' # demo_disk) ''squashfs-root'')
        [''libc.so.6''] demo_libs (demo_extracted @ ''python.appimage'' # demo_disk)))
      = [''squashfs-root/usr/lib/libfoo.so'', ''squashfs-root/usr/lib/libxcb.so.1'']
        @ demo_extracted @ ''python.appimage'' # demo_disk"
      by code_simp
    with f7 show ?thesis
      unfolding w6 doc by simp
  qed
  have apt: "\<not> skip_apt demo_args"
    by (simp add: demo_args_def)
  from all f7 have "filter is_action (snd (snd ?run))
          = fetch_actions ?os demo_args python_url ''python.appimage'' demo_disk
            @ [Rmtree ''squashfs-root'',
               SubprocessRun extract_cmd True (Inr 0),
               SubprocessRun pip_cmd False (Inr 0),
               OpenRead (jsonfile demo_args)]
            @ [SubprocessRun (apt_cmd [''libxcb1'']) False (Inr 0)]
            @ copies
            @ [Remove ''squashfs-root/AppRun'',
               OpenWrite ''squashfs-root/AppRun''
                 (content ?os
                   (described_paths ?os
                     (os_walk_files ?os
                        (demo_extracted @ ''python.appimage'' # demo_disk) ''squashfs-root'')
                     [''libc.so.6''] demo_libs)),
               Chmod ''squashfs-root/AppRun'' 493]
            @ fetch_actions ?os demo_args appimagetool_url ''appimagetool.appimage'' w8
            @ [SubprocessRun (appimagetool_cmd demo_args) False (Inr 0)]
        \<and> described_loop ?os
            (os_walk_files ?os (demo_extracted @ ''python.appimage'' # demo_disk)
               ''squashfs-root'')
            [''libc.so.6''] demo_libs (demo_extracted @ ''python.appimage'' # demo_disk)
          = (None,
             [''squashfs-root/usr/lib/libfoo.so'', ''squashfs-root/usr/lib/libxcb.so.1'']
               @ demo_extracted @ ''python.appimage'' # demo_disk,
             copies)"
    unfolding w6 w7 doc by (simp only: apt if_False simp_thms)
  then have "\<exists>copies w8. filter is_action (snd (snd ?run))
          = fetch_actions ?os demo_args python_url ''python.appimage'' demo_disk
            @ [Rmtree ''squashfs-root'',
               SubprocessRun extract_cmd True (Inr 0),
               SubprocessRun pip_cmd False (Inr 0),
               OpenRead (jsonfile demo_args)]
            @ [SubprocessRun (apt_cmd [''libxcb1'']) False (Inr 0)]
            @ copies
            @ [Remove ''squashfs-root/AppRun'',
               OpenWrite ''squashfs-root/AppRun''
                 (content ?os
                   (described_paths ?os
                     (os_walk_files ?os
                        (demo_extracted @ ''python.appimage'' # demo_disk) ''squashfs-root'')
                     [''libc.so.6''] demo_libs)),
               Chmod ''squashfs-root/AppRun'' 493]
            @ fetch_actions ?os demo_args appimagetool_url ''appimagetool.appimage'' w8
            @ [SubprocessRun (appimagetool_cmd demo_args) False (Inr 0)]
        \<and> described_loop ?os
            (os_walk_files ?os (demo_extracted @ ''python.appimage'' # demo_disk)
               ''squashfs-root'')
            [''libc.so.6''] demo_libs (demo_extracted @ ''python.appimage'' # demo_disk)
          = (None,
             [''squashfs-root/usr/lib/libfoo.so'', ''squashfs-root/usr/lib/libxcb.so.1'']
               @ demo_extracted @ ''python.appimage'' # demo_disk,
             copies)"
    by blast
  with ok acts show ?thesis
    by (intro conjI)
qed

text \<open>
  C6 as stated fails on the downloading and on the copying.  On a machine that holds
  both files from an earlier run, the script runs to its end and downloads nothing.
  With a document all of whose libraries are in the AppImage already or excluded, the
  script runs to its end and copies nothing.
\<close>

theorem build_downloads_counterexample:
  "fst (build (demo_os demo_doc all_succeed) demo_args (demo_disk_cached, [])) = Inr ()
   \<and> filter is_download
       (snd (snd (build (demo_os demo_doc all_succeed) demo_args (demo_disk_cached, [])))) = []
   \<and> fst (build (demo_os demo_doc_all_skipped all_succeed) demo_args (demo_disk, [])) = Inr ()
   \<and> filter is_copy_action
       (snd (snd (build (demo_os demo_doc_all_skipped all_succeed) demo_args (demo_disk, []))))
     = []"
  by code_simp

subsection \<open>The keys of the JSON document\<close>




end
